theory Spec2Isabelle
  imports Main "HOL-Library.AList"
begin

section \<open>JavaScript strings and values\<close>

text \<open>
  The client is \<^verbatim>\<open>frontend/js/auth.js\<close>. A JavaScript string is modelled as a
  \<^typ>\<open>string\<close>, one character for one code unit, so \<^verbatim>\<open>s.length\<close> is
  \<^term>\<open>length s\<close>. Characters beyond Latin-1 are outside the model.
\<close>

text \<open>The white space \<^verbatim>\<open>String.prototype.trim\<close> strips, as far as it lies in Latin-1:
  TAB, LF, VT, FF, CR, SP and NBSP.\<close>

definition is_js_space :: "char \<Rightarrow> bool" where
  "is_js_space c = (let n = (of_char c :: nat) in (9 \<le> n \<and> n \<le> 13) \<or> n = 32 \<or> n = 160)"

definition trim :: "string \<Rightarrow> string" where
  "trim s = rev (dropWhile is_js_space (rev (dropWhile is_js_space s)))"

definition lower_char :: "char \<Rightarrow> char" where
  "lower_char c =
     (let n = (of_char c :: nat) in
      if (65 \<le> n \<and> n \<le> 90) \<or> (192 \<le> n \<and> n \<le> 222 \<and> n \<noteq> 215)
      then char_of (n + 32) else c)"

definition toLowerCase :: "string \<Rightarrow> string" where
  "toLowerCase s = map lower_char s"

fun startsWith :: "string \<Rightarrow> string \<Rightarrow> bool" where
  "startsWith s [] = True"
| "startsWith [] (p # ps) = False"
| "startsWith (c # cs) (p # ps) = (c = p \<and> startsWith cs ps)"

fun str_includes :: "string \<Rightarrow> string \<Rightarrow> bool" where
  "str_includes [] p = (p = [])"
| "str_includes (c # cs) p = (startsWith (c # cs) p \<or> str_includes cs p)"

definition is_digit :: "char \<Rightarrow> bool" where
  "is_digit c = (let n = (of_char c :: nat) in 48 \<le> n \<and> n \<le> 57)"

text \<open>\<^verbatim>\<open>String(n)\<close> for an integer of magnitude below \<open>10\<^sup>2\<^sup>1\<close>, in decimal.\<close>

fun string_of_nat :: "nat \<Rightarrow> string" where
  "string_of_nat n =
     (if n < 10 then [char_of (48 + n)]
      else string_of_nat (n div 10) @ [char_of (48 + n mod 10)])"

definition string_of_int :: "int \<Rightarrow> string" where
  "string_of_int i = (if i < 0 then CHR ''-'' # string_of_nat (nat (- i)) else string_of_nat (nat i))"

text \<open>\<^verbatim>\<open>s.padStart(2, '0')\<close>.\<close>

definition padStart2 :: "string \<Rightarrow> string" where
  "padStart2 s = replicate (2 - length s) CHR ''0'' @ s"

text \<open>
  The values the client handles: what \<^verbatim>\<open>JSON.parse\<close> returns, the fields of a request
  payload, and \<^verbatim>\<open>undefined\<close> for a property that is not there. Numbers are the
  integers; an object is the list of its properties in insertion order.
\<close>

datatype jsval =
    JUndefined
  | JNull
  | JBool bool
  | JNum int
  | JStr string
  | JArr "jsval list"
  | JObj "(string \<times> jsval) list"

type_synonym jsobj = "(string \<times> jsval) list"

text \<open>\<^verbatim>\<open>obj[key]\<close> on an object: \<^verbatim>\<open>undefined\<close> when the key is absent.\<close>

definition get_prop :: "jsobj \<Rightarrow> string \<Rightarrow> jsval" where
  "get_prop obj key = (case map_of obj key of None \<Rightarrow> JUndefined | Some v \<Rightarrow> v)"

text \<open>\<^verbatim>\<open>obj[key] = v\<close>.\<close>

definition assign :: "jsobj \<Rightarrow> string \<Rightarrow> jsval \<Rightarrow> jsobj" where
  "assign obj key v = AList.update key v obj"

text \<open>Truthiness, as \<^verbatim>\<open>if (v)\<close>, \<^verbatim>\<open>!v\<close> and \<^verbatim>\<open>v || w\<close> read it.\<close>

fun truthy :: "jsval \<Rightarrow> bool" where
  "truthy JUndefined = False"
| "truthy JNull = False"
| "truthy (JBool b) = b"
| "truthy (JNum n) = (n \<noteq> 0)"
| "truthy (JStr s) = (s \<noteq> [])"
| "truthy (JArr xs) = True"
| "truthy (JObj kvs) = True"

text \<open>\<^verbatim>\<open>a || b\<close>.\<close>

definition or_else :: "jsval \<Rightarrow> jsval \<Rightarrow> jsval" where
  "or_else a b = (if truthy a then a else b)"

section \<open>apiRequest: the request\<close>

text \<open>
  \<^verbatim>\<open>apiRequest(endpoint, method = 'GET', data = null)\<close> first builds the options of the
  \<^verbatim>\<open>fetch\<close> call. A request is the URL handed to \<^verbatim>\<open>fetch\<close> with these options.
  The body is \<^verbatim>\<open>JSON.stringify(cleanData)\<close>; the model keeps the object that is
  serialised. \<^verbatim>\<open>data\<close> is \<^term>\<open>None\<close> for \<^verbatim>\<open>null\<close>.
\<close>

definition API_BASE_URL :: string where
  "API_BASE_URL = ''http://localhost:8000/api''"

record request =
  url :: string
  req_method :: string
  headers :: "(string \<times> string) list"
  credentials :: string
  body :: "jsobj option"

text \<open>The \<^verbatim>\<open>for (const key in data)\<close> loop, over the keys still to visit.\<close>

fun clean_loop :: "jsobj \<Rightarrow> string list \<Rightarrow> jsobj \<Rightarrow> jsobj" where
  "clean_loop data [] cleanData = cleanData"
| "clean_loop data (key # keys) cleanData =
     (if get_prop data key \<noteq> JNull \<and> get_prop data key \<noteq> JUndefined \<and> get_prop data key \<noteq> JStr []
      then clean_loop data keys (assign cleanData key (get_prop data key))
      else clean_loop data keys cleanData)"

definition cleanData :: "jsobj \<Rightarrow> jsobj" where
  "cleanData data = clean_loop data (map fst data) []"

definition api_options :: "string \<Rightarrow> jsobj option \<Rightarrow> request" where
  "api_options method data =
     (let options = \<lparr> url = [], req_method = method,
                       headers = [(''Content-Type'', ''application/json; charset=utf-8'')],
                       credentials = ''include'', body = None \<rparr>
      in case data of
           None \<Rightarrow> options
         | Some d \<Rightarrow>
             if method \<noteq> ''GET''
             then options\<lparr> body := Some (cleanData d) \<rparr>
             else options)"

text \<open>The call \<^verbatim>\<open>fetch(`${API_BASE_URL}${endpoint}`, options)\<close>.\<close>

definition api_fetch :: "string \<Rightarrow> string \<Rightarrow> jsobj option \<Rightarrow> request" where
  "api_fetch endpoint method data = (api_options method data)\<lparr> url := API_BASE_URL @ endpoint \<rparr>"

section \<open>apiRequest: the response\<close>

text \<open>
  An exception is a value. \<^verbatim>\<open>new Error(m)\<close> is \<open>JsError m\<close>; the engine's own
  \<^verbatim>\<open>TypeError\<close> (a property read on \<^verbatim>\<open>null\<close> or \<^verbatim>\<open>undefined\<close>, a rejected
  \<^verbatim>\<open>fetch\<close>) is \<open>JsTypeError m\<close>. The client only ever reads \<^verbatim>\<open>error.message\<close>.
\<close>

datatype js_error = JsError string | JsTypeError string

fun message :: "js_error \<Rightarrow> string" where
  "message (JsError m) = m"
| "message (JsTypeError m) = m"

text \<open>The message of the engine for \<^verbatim>\<open>x.name\<close> when \<^verbatim>\<open>x\<close> is \<^verbatim>\<open>null\<close> or
  \<^verbatim>\<open>undefined\<close> (the wording is V8's).\<close>

definition null_read :: "string \<Rightarrow> string \<Rightarrow> js_error" where
  "null_read what name =
     JsTypeError (''Cannot read properties of '' @ what @ '' (reading '' @ [CHR 0x27] @ name @ [CHR 0x27] @ '')'')"

text \<open>\<^verbatim>\<open>v.name\<close>: a \<^verbatim>\<open>TypeError\<close> on \<^verbatim>\<open>null\<close> and \<^verbatim>\<open>undefined\<close>, the property of
  an object, and \<^verbatim>\<open>undefined\<close> on the other values (the client reads no property that
  a string, a number, a boolean or an array has of its own).\<close>

fun member :: "jsval \<Rightarrow> string \<Rightarrow> js_error + jsval" where
  "member JUndefined name = Inl (null_read ''undefined'' name)"
| "member JNull name = Inl (null_read ''null'' name)"
| "member (JObj kvs) name = Inr (get_prop kvs name)"
| "member v name = Inr JUndefined"

text \<open>\<^verbatim>\<open>v?.name\<close>.\<close>

fun opt_member :: "jsval \<Rightarrow> string \<Rightarrow> jsval" where
  "opt_member (JObj kvs) name = get_prop kvs name"
| "opt_member v name = JUndefined"

text \<open>\<^verbatim>\<open>Array.prototype.join\<close> with the default separator.\<close>

fun join_comma :: "string list \<Rightarrow> string" where
  "join_comma [] = []"
| "join_comma [x] = x"
| "join_comma (x # y # ys) = x @ '','' @ join_comma (y # ys)"

text \<open>The conversion of a value to a string (\<^verbatim>\<open>String(v)\<close>, a template, the argument of
  \<^verbatim>\<open>new Error\<close>, a \<^verbatim>\<open>dataset\<close> entry). A number is printed in decimal, as
  JavaScript prints an integer of magnitude below \<open>10\<^sup>2\<^sup>1\<close>; from there on JavaScript
  writes an exponent, which is outside the model.\<close>

fun to_str :: "jsval \<Rightarrow> string" where
  "to_str JUndefined = ''undefined''"
| "to_str JNull = ''null''"
| "to_str (JBool b) = (if b then ''true'' else ''false'')"
| "to_str (JNum n) = string_of_int n"
| "to_str (JStr s) = s"
| "to_str (JArr xs) =
     join_comma (map (\<lambda>x. if x = JNull \<or> x = JUndefined then [] else to_str x) xs)"
| "to_str (JObj kvs) = ''[object Object]''"

text \<open>
  What the environment gives back to one \<^verbatim>\<open>fetch\<close>: a rejection, or a response with its
  status, its \<^verbatim>\<open>content-type\<close> header (\<open>None\<close> when \<^verbatim>\<open>headers.get\<close> is \<^verbatim>\<open>null\<close>),
  what \<^verbatim>\<open>response.text()\<close> settles to, and what \<^verbatim>\<open>JSON.parse\<close> makes of that text
  (\<open>None\<close> when it throws). \<^verbatim>\<open>JSON.parse\<close> is the platform's; its result is an input here.
\<close>

record response =
  status :: nat
  content_type :: "string option"
  body_text :: "js_error + string"
  parsed :: "jsval option"

datatype fetch_outcome = NetworkFailure js_error | Response response

text \<open>\<^verbatim>\<open>response.ok\<close>: the status is in the range 200 to 299.\<close>

definition ok :: "response \<Rightarrow> bool" where
  "ok r = (200 \<le> status r \<and> status r \<le> 299)"

definition connection_error :: string where
  "connection_error = ''Server connection error. Please ensure the server is running.''"

definition empty_response_error :: "nat \<Rightarrow> string" where
  "empty_response_error st =
     ''Server returned empty response (Status: '' @ string_of_nat st @ ''). Please check the server.''"

definition non_json_error :: "nat \<Rightarrow> string" where
  "non_json_error st =
     ''Server returned non-JSON response (Status: '' @ string_of_nat st @ ''). Please check the server.''"

definition invalid_json_error :: "string \<Rightarrow> string" where
  "invalid_json_error responseText = ''Invalid JSON response from server: '' @ take 100 responseText"

text \<open>The body of the \<^verbatim>\<open>try\<close> block from the \<^verbatim>\<open>fetch\<close> on: \<open>Inl\<close> is what it throws,
  \<open>Inr\<close> what it returns. Logging to the console is not modelled.\<close>

definition api_try :: "fetch_outcome \<Rightarrow> js_error + jsval" where
  "api_try outcome =
     (case outcome of
        NetworkFailure e \<Rightarrow> Inl e
      | Response r \<Rightarrow>
          (let contentType = toLowerCase (case content_type r of None \<Rightarrow> [] | Some h \<Rightarrow> h);
               isJson = str_includes contentType ''application/json''
           in case body_text r of
                Inl e \<Rightarrow> Inl (JsError connection_error)
              | Inr responseText \<Rightarrow>
                  if responseText = [] \<or> trim responseText = []
                  then Inl (JsError (empty_response_error (status r)))
                  else
                    (let looksLikeJson = (startsWith (trim responseText) ''{'' \<or>
                                          startsWith (trim responseText) ''['')
                     in if isJson \<or> looksLikeJson
                        then (case parsed r of
                                None \<Rightarrow> Inl (JsError (invalid_json_error responseText))
                              | Some result \<Rightarrow>
                                  if \<not> ok r
                                  then (case member result ''message'' of
                                          Inl e \<Rightarrow> Inl e
                                        | Inr m \<Rightarrow>
                                            Inl (JsError (to_str (or_else m
                                              (JStr (''HTTP Error '' @ string_of_nat (status r)))))))
                                  else Inr result)
                        else Inl (JsError (non_json_error (status r))))))"

text \<open>The \<^verbatim>\<open>catch (error)\<close> block around it.\<close>

definition api_catch :: "js_error \<Rightarrow> js_error" where
  "api_catch error =
     (if str_includes (message error) ''Failed to fetch'' \<or>
         str_includes (message error) ''NetworkError'' \<or>
         str_includes (message error) ''Network request failed'' \<or>
         str_includes (message error) ''fetch''
      then JsError connection_error
      else error)"

text \<open>What the promise of \<^verbatim>\<open>apiRequest\<close> settles to, given the outcome of its fetch.\<close>

definition api_result :: "fetch_outcome \<Rightarrow> js_error + jsval" where
  "api_result outcome = (case api_try outcome of Inl e \<Rightarrow> Inl (api_catch e) | Inr result \<Rightarrow> Inr result)"

section \<open>The page and the module state\<close>

text \<open>
  An element of the page, with the attributes the client reads or writes.
  \<open>btn_text_display\<close> and \<open>btn_loader_display\<close> are the \<^verbatim>\<open>style.display\<close> of the
  children \<^verbatim>\<open>.btn-text\<close> and \<^verbatim>\<open>.btn-loader\<close> of a button (\<open>None\<close>: no such child).
  \<open>className\<close> is written on the message element only and \<open>classList\<close> on the timer
  element only, so the two views of the class attribute are kept apart.
\<close>

record element =
  elem_value :: string
  textContent :: string
  className :: string
  classList :: "string list"
  display :: string
  disabled :: bool
  dataset :: "string \<Rightarrow> string option"
  btn_text_display :: "string option"
  btn_loader_display :: "string option"

text \<open>The callbacks handed to \<^verbatim>\<open>setTimeout\<close>: hiding the message after 5 seconds,
  and going to the dashboard 1.5 seconds after a verification.\<close>

datatype timeout_action = HideMessage | GoToDashboard

text \<open>What an \<^verbatim>\<open>async\<close> function does once its \<^verbatim>\<open>await apiRequest(...)\<close> settles,
  with the locals it still needs.\<close>

datatype continuation =
    AfterRegister string string
  | AfterLogin string string
  | AfterVerifyRegister
  | AfterVerifyLogin
  | AfterResend
  | AfterLogout
  | AfterCheckAuth
  | AfterLoadUserInfo

text \<open>
  The state: the page (\<^verbatim>\<open>document.getElementById\<close>, \<open>None\<close> for \<^verbatim>\<open>null\<close>), the three
  module variables, \<^verbatim>\<open>window.location.href\<close> as last assigned, and the browser's side:
  the handles of the running intervals, the pending timeouts, the next timer handle, and
  the fetches in flight, each with the continuation that waits for it. The client creates
  and removes no element, so an element a closure holds is the element of that id.
\<close>

record state =
  dom :: "string \<Rightarrow> element option"
  otpTimerInterval :: "nat option"
  otpTimerSeconds :: int
  isVerifyingOtp :: bool
  location_href :: string
  intervals :: "nat list"
  timeouts :: "timeout_action list"
  next_handle :: nat
  in_flight :: "(request \<times> continuation) list"

definition update_element :: "string \<Rightarrow> (element \<Rightarrow> element) \<Rightarrow> state \<Rightarrow> state" where
  "update_element ident f s =
     (case dom s ident of None \<Rightarrow> s | Some el \<Rightarrow> s\<lparr> dom := (dom s)(ident \<mapsto> f el) \<rparr>)"

definition setTimeout :: "timeout_action \<Rightarrow> state \<Rightarrow> state" where
  "setTimeout action s =
     s\<lparr> timeouts := timeouts s @ [action], next_handle := Suc (next_handle s) \<rparr>"

subsection \<open>Helper functions\<close>

definition showMessage :: "string \<Rightarrow> string \<Rightarrow> state \<Rightarrow> state" where
  "showMessage msg type s =
     (case dom s ''message'' of
        None \<Rightarrow> s
      | Some messageEl \<Rightarrow>
          setTimeout HideMessage
            (s\<lparr> dom := (dom s)(''message'' \<mapsto>
                 messageEl\<lparr> textContent := msg, className := ''message '' @ type,
                            display := ''block'' \<rparr>) \<rparr>))"

definition setLoading :: "string \<Rightarrow> bool \<Rightarrow> state \<Rightarrow> state" where
  "setLoading buttonId isLoading s =
     update_element buttonId
       (\<lambda>btn. if isLoading
              then btn\<lparr> disabled := True,
                        btn_text_display := map_option (\<lambda>_. ''none'') (btn_text_display btn),
                        btn_loader_display := map_option (\<lambda>_. ''block'') (btn_loader_display btn) \<rparr>
              else btn\<lparr> disabled := False,
                        btn_text_display := map_option (\<lambda>_. ''inline'') (btn_text_display btn),
                        btn_loader_display := map_option (\<lambda>_. ''none'') (btn_loader_display btn) \<rparr>)
       s"

subsection \<open>The OTP timer\<close>

text \<open>\<^verbatim>\<open>if (otpTimerInterval)\<close> holds for a handle other than 0.\<close>

definition stopOtpTimer :: "state \<Rightarrow> state" where
  "stopOtpTimer s =
     (case otpTimerInterval s of
        None \<Rightarrow> s
      | Some h \<Rightarrow>
          if h \<noteq> 0
          then s\<lparr> intervals := removeAll h (intervals s), otpTimerInterval := None \<rparr>
          else s)"

text \<open>The remainder \<^verbatim>\<open>a % b\<close>, with the sign of \<^verbatim>\<open>a\<close>.\<close>

definition js_rem :: "int \<Rightarrow> int \<Rightarrow> int" where
  "js_rem a b = (if a < 0 then - ((- a) mod \<bar>b\<bar>) else a mod \<bar>b\<bar>)"

definition class_add :: "string \<Rightarrow> string list \<Rightarrow> string list" where
  "class_add c cs = (if c \<in> set cs then cs else cs @ [c])"

definition class_remove :: "string list \<Rightarrow> string list \<Rightarrow> string list" where
  "class_remove rs cs = filter (\<lambda>c. c \<notin> set rs) cs"

definition updateTimerDisplay :: "state \<Rightarrow> state" where
  "updateTimerDisplay s =
     update_element ''otpTimer''
       (\<lambda>timerElement.
          let minutes = otpTimerSeconds s div 60;
              seconds = js_rem (otpTimerSeconds s) 60;
              formattedTime = padStart2 (string_of_int minutes) @ '':'' @ padStart2 (string_of_int seconds)
          in if otpTimerSeconds s \<le> 60
             then timerElement\<lparr> textContent := formattedTime,
                     classList := class_remove [''expired''] (class_add ''warning'' (classList timerElement)) \<rparr>
             else timerElement\<lparr> textContent := formattedTime,
                     classList := class_remove [''warning'', ''expired''] (classList timerElement) \<rparr>)
       s"

text \<open>\<^verbatim>\<open>setInterval\<close> hands out the next handle and starts the interval.\<close>

definition startOtpTimer :: "state \<Rightarrow> state" where
  "startOtpTimer s =
     (let s1 = stopOtpTimer (s\<lparr> otpTimerSeconds := 300 \<rparr>)
      in case dom s1 ''otpTimer'' of
           None \<Rightarrow> s1
         | Some timerElement \<Rightarrow>
             (let s2 = updateTimerDisplay s1
              in s2\<lparr> otpTimerInterval := Some (next_handle s2),
                      intervals := intervals s2 @ [next_handle s2],
                      next_handle := Suc (next_handle s2) \<rparr>))"

text \<open>The callback of the interval, run once a second while the interval is active.\<close>

definition timer_tick :: "state \<Rightarrow> state" where
  "timer_tick s =
     (let s1 = updateTimerDisplay (s\<lparr> otpTimerSeconds := otpTimerSeconds s - 1 \<rparr>)
      in if otpTimerSeconds s1 \<le> 0
         then showMessage ''Verification code has expired. Please request a new code.'' ''error''
                (update_element ''otpTimer''
                   (\<lambda>timerElement. timerElement\<lparr> textContent := ''00:00'',
                        classList := class_add ''expired'' (classList timerElement) \<rparr>)
                   (stopOtpTimer s1))
         else s1)"

subsection \<open>The OTP form\<close>

text \<open>Assigning to \<^verbatim>\<open>textContent\<close>: \<^verbatim>\<open>null\<close> gives the empty string.\<close>

definition text_content :: "jsval \<Rightarrow> string" where
  "text_content v = (if v = JNull then [] else to_str v)"

text \<open>\<^verbatim>\<open>showOtpForm\<close> writes \<^verbatim>\<open>otpForm.dataset\<close> without a null check: with no OTP form
  on the page it throws there, after it has hidden the other forms.\<close>

definition showOtpForm :: "jsval \<Rightarrow> string \<Rightarrow> state \<Rightarrow> state \<times> js_error option" where
  "showOtpForm identifier type s =
     (let s1 = update_element ''loginForm'' (\<lambda>f. f\<lparr> display := ''none'' \<rparr>) s;
          s2 = update_element ''registerForm'' (\<lambda>f. f\<lparr> display := ''none'' \<rparr>) s1
      in case dom s2 ''otpForm'' of
           None \<Rightarrow> (s2, Some (null_read ''null'' ''dataset''))
         | Some otpForm \<Rightarrow>
             (let s3 = update_element ''otpForm'' (\<lambda>f. f\<lparr> display := ''block'' \<rparr>) s2;
                  s4 = update_element ''otpIdentifier''
                         (\<lambda>e. e\<lparr> textContent := text_content identifier \<rparr>) s3;
                  s5 = update_element ''otpForm''
                         (\<lambda>f. f\<lparr> dataset := (dataset f)(''type'' \<mapsto> type,
                                                        ''identifier'' \<mapsto> to_str identifier) \<rparr>) s4;
                  s6 = update_element ''otpCode'' (\<lambda>e. e\<lparr> elem_value := [] \<rparr>) s5
              in (startOtpTimer s6, None)))"

definition backToForm :: "state \<Rightarrow> state" where
  "backToForm s =
     (let s1 = stopOtpTimer s
      in case dom s1 ''otpForm'' of
           None \<Rightarrow> s1
         | Some otpForm \<Rightarrow>
             (let type = dataset otpForm ''type'';
                  s2 = update_element ''otpForm'' (\<lambda>f. f\<lparr> display := ''none'' \<rparr>) s1;
                  s3 = update_element ''otpTimer''
                         (\<lambda>t. t\<lparr> textContent := ''05:00'',
                                 classList := class_remove [''warning'', ''expired''] (classList t) \<rparr>) s2
              in if type = Some ''login'' \<and> dom s3 ''loginForm'' \<noteq> None
                 then update_element ''loginForm'' (\<lambda>f. f\<lparr> display := ''block'' \<rparr>) s3
                 else if type = Some ''register'' \<and> dom s3 ''registerForm'' \<noteq> None
                 then update_element ''registerForm'' (\<lambda>f. f\<lparr> display := ''block'' \<rparr>) s3
                 else s3))"

text \<open>The listener on the code field: \<^verbatim>\<open>value.replace(/[^0-9]/g, '')\<close>.\<close>

definition otp_input_listener :: "state \<Rightarrow> state" where
  "otp_input_listener s =
     update_element ''otpCode'' (\<lambda>e. e\<lparr> elem_value := filter is_digit (elem_value e) \<rparr>) s"

text \<open>The user edits a field. The script installs the listener above when the page has
  both the verify button and the code field.\<close>

definition user_input :: "string \<Rightarrow> string \<Rightarrow> state \<Rightarrow> state" where
  "user_input ident txt s =
     (let s1 = update_element ident (\<lambda>e. e\<lparr> elem_value := txt \<rparr>) s
      in if ident = ''otpCode'' \<and> dom s ''verifyOtpBtn'' \<noteq> None then otp_input_listener s1 else s1)"

section \<open>The asynchronous operations\<close>

text \<open>
  An \<^verbatim>\<open>async\<close> function runs up to its \<^verbatim>\<open>await apiRequest(...)\<close>, which issues the
  fetch and suspends; the rest runs when the request settles. The first part is a function
  from the state to the new state and how the call stands: it has returned, it has thrown
  (the promise is rejected), or it is awaiting its request. The second part takes what
  \<open>api_result\<close> gives. Nothing of \<^verbatim>\<open>apiRequest\<close> between its own two awaits touches
  the state, so settling is one step.
\<close>

datatype completion = Returned | Threw js_error | Awaiting

text \<open>\<^verbatim>\<open>await apiRequest(endpoint, method, data)\<close>: the fetch is issued.\<close>

definition await_api :: "string \<Rightarrow> string \<Rightarrow> jsobj option \<Rightarrow> continuation \<Rightarrow> state \<Rightarrow> state" where
  "await_api endpoint method data k s =
     s\<lparr> in_flight := in_flight s @ [(api_fetch endpoint method data, k)] \<rparr>"

text \<open>\<^verbatim>\<open>document.getElementById(id).value.trim()\<close>.\<close>

definition trimmed_value :: "state \<Rightarrow> string \<Rightarrow> js_error + string" where
  "trimmed_value s ident =
     (case dom s ident of
        None \<Rightarrow> Inl (null_read ''null'' ''value'')
      | Some el \<Rightarrow> Inr (trim (elem_value el)))"

text \<open>\<^verbatim>\<open>v || null\<close> for a string.\<close>

definition or_null :: "string \<Rightarrow> jsval" where
  "or_null v = (if v \<noteq> [] then JStr v else JNull)"

text \<open>The \<^verbatim>\<open>catch (error)\<close> block of \<^verbatim>\<open>register\<close>, \<^verbatim>\<open>login\<close> and \<^verbatim>\<open>verifyOtp\<close>.\<close>

definition show_error :: "js_error \<Rightarrow> state \<Rightarrow> state" where
  "show_error error s =
     showMessage (if message error \<noteq> [] then message error else connection_error) ''error'' s"

text \<open>\<^verbatim>\<open>result.data?.identifier || result.identifier || (email || phone)\<close>, for a
  \<^verbatim>\<open>result\<close> that is neither \<^verbatim>\<open>null\<close> nor \<^verbatim>\<open>undefined\<close>.\<close>

definition response_identifier :: "jsval \<Rightarrow> string \<Rightarrow> string \<Rightarrow> jsval" where
  "response_identifier result email phone =
     or_else (opt_member (opt_member result ''data'') ''identifier'')
       (or_else (opt_member result ''identifier'')
          (or_else (JStr email) (JStr phone)))"

text \<open>\<^verbatim>\<open>result.message || fallback\<close>, as the text of the message element.\<close>

definition message_or :: "jsval \<Rightarrow> string \<Rightarrow> string" where
  "message_or result fallback = to_str (or_else (opt_member result ''message'') (JStr fallback))"

subsection \<open>Registration\<close>

definition register :: "state \<Rightarrow> state \<times> completion" where
  "register s =
     (case trimmed_value s ''firstName'' of Inl e \<Rightarrow> (s, Threw e) | Inr firstName \<Rightarrow>
      case trimmed_value s ''lastName'' of Inl e \<Rightarrow> (s, Threw e) | Inr lastName \<Rightarrow>
      case trimmed_value s ''registerEmail'' of Inl e \<Rightarrow> (s, Threw e) | Inr email \<Rightarrow>
      case trimmed_value s ''registerPhone'' of Inl e \<Rightarrow> (s, Threw e) | Inr phone \<Rightarrow>
        if firstName = [] \<or> lastName = []
        then (showMessage ''Please enter first name and last name'' ''error'' s, Returned)
        else if email = [] \<and> phone = []
        then (showMessage ''Please enter email or phone number'' ''error'' s, Returned)
        else
          (let s1 = setLoading ''registerBtn'' True s;
               requestData = [(''first_name'', JStr firstName), (''last_name'', JStr lastName)];
               requestData1 = (if email \<noteq> [] then assign requestData ''email'' (JStr email)
                               else requestData);
               requestData2 = (if phone \<noteq> [] then assign requestData1 ''phone'' (JStr phone)
                               else requestData1)
           in (await_api ''/register'' ''POST'' (Some requestData2) (AfterRegister email phone) s1,
               Awaiting)))"

definition register_resume :: "string \<Rightarrow> string \<Rightarrow> js_error + jsval \<Rightarrow> state \<Rightarrow> state" where
  "register_resume email phone r s =
     setLoading ''registerBtn'' False
       (case r of
          Inl error \<Rightarrow> show_error error s
        | Inr result \<Rightarrow>
            (case member result ''success'' of
               Inl error \<Rightarrow> show_error error s
             | Inr success \<Rightarrow>
                 if truthy success
                 then (case showOtpForm (response_identifier result email phone) ''register'' s of
                         (s1, Some error) \<Rightarrow> show_error error s1
                       | (s1, None) \<Rightarrow>
                           showMessage (message_or result ''Verification code sent'') ''success'' s1)
                 else showMessage (message_or result ''Registration error'') ''error'' s))"

subsection \<open>Login\<close>

definition login :: "state \<Rightarrow> state \<times> completion" where
  "login s =
     (case trimmed_value s ''loginEmail'' of Inl e \<Rightarrow> (s, Threw e) | Inr email \<Rightarrow>
      case trimmed_value s ''loginPhone'' of Inl e \<Rightarrow> (s, Threw e) | Inr phone \<Rightarrow>
        if email = [] \<and> phone = []
        then (showMessage ''Please enter email or phone number'' ''error'' s, Returned)
        else
          (let s1 = setLoading ''loginBtn'' True s
           in (await_api ''/login'' ''POST''
                 (Some [(''email'', or_null email), (''phone'', or_null phone)])
                 (AfterLogin email phone) s1,
               Awaiting)))"

text \<open>\<^verbatim>\<open>result.data?.direct_login || result.direct_login\<close>.\<close>

definition direct_login :: "jsval \<Rightarrow> bool" where
  "direct_login result =
     truthy (or_else (opt_member (opt_member result ''data'') ''direct_login'')
               (opt_member result ''direct_login''))"

definition login_resume :: "string \<Rightarrow> string \<Rightarrow> js_error + jsval \<Rightarrow> state \<Rightarrow> state" where
  "login_resume email phone r s =
     setLoading ''loginBtn'' False
       (case r of
          Inl error \<Rightarrow> show_error error s
        | Inr result \<Rightarrow>
            (case member result ''success'' of
               Inl error \<Rightarrow> show_error error s
             | Inr success \<Rightarrow>
                 if truthy success
                 then if direct_login result
                      then s\<lparr> location_href := ''dashboard.html'' \<rparr>
                      else (case showOtpForm (response_identifier result email phone) ''login'' s of
                              (s1, Some error) \<Rightarrow> show_error error s1
                            | (s1, None) \<Rightarrow>
                                showMessage (message_or result ''Verification code sent'') ''success'' s1)
                 else showMessage (message_or result ''Login error'') ''error'' s))"

subsection \<open>OTP verification\<close>

text \<open>\<^verbatim>\<open>otpForm ? otpForm.dataset.name : null\<close>; \<open>None\<close> stands for \<^verbatim>\<open>null\<close> and for
  \<^verbatim>\<open>undefined\<close>, which the client does not tell apart.\<close>

definition otp_dataset :: "state \<Rightarrow> string \<Rightarrow> string option" where
  "otp_dataset s name = (case dom s ''otpForm'' of None \<Rightarrow> None | Some otpForm \<Rightarrow> dataset otpForm name)"

text \<open>The \<^verbatim>\<open>finally\<close> block of \<^verbatim>\<open>verifyOtp\<close>.\<close>

definition verify_finally :: "state \<Rightarrow> state" where
  "verify_finally s = setLoading ''verifyOtpBtn'' False (s\<lparr> isVerifyingOtp := False \<rparr>)"

definition verifyOtp :: "state \<Rightarrow> state \<times> completion" where
  "verifyOtp s =
     (if isVerifyingOtp s then (s, Returned)
      else
        case trimmed_value s ''otpCode'' of Inl e \<Rightarrow> (s, Threw e) | Inr otpCode \<Rightarrow>
          if otpCode = [] \<or> length otpCode \<noteq> 6
          then (showMessage ''Please enter a 6-digit code'' ''error'' s, Returned)
          else
            (case otp_dataset s ''identifier'' of
               None \<Rightarrow> (showMessage ''Identifier not found. Please try again.'' ''error'' s, Returned)
             | Some identifier \<Rightarrow>
                 if identifier = []
                 then (showMessage ''Identifier not found. Please try again.'' ''error'' s, Returned)
                 else
                   (let s1 = setLoading ''verifyOtpBtn'' True (s\<lparr> isVerifyingOtp := True \<rparr>)
                    in if otp_dataset s ''type'' = Some ''register''
                       then (await_api ''/verify-otp'' ''POST''
                               (Some [(''identifier'', JStr identifier), (''otp'', JStr otpCode)])
                               AfterVerifyRegister s1,
                             Awaiting)
                       else if otp_dataset s ''type'' = Some ''login''
                       then (await_api ''/verify-login-otp'' ''POST''
                               (Some [(''identifier'', JStr identifier), (''otp'', JStr otpCode)])
                               AfterVerifyLogin s1,
                             Awaiting)
                       else (verify_finally (showMessage ''Unknown operation type'' ''error'' s1),
                             Returned))))"

text \<open>The two branches differ in the fallback of the success message only.\<close>

definition verifyOtp_resume :: "string \<Rightarrow> js_error + jsval \<Rightarrow> state \<Rightarrow> state" where
  "verifyOtp_resume success_message r s =
     verify_finally
       (case r of
          Inl error \<Rightarrow> show_error error s
        | Inr result \<Rightarrow>
            (case member result ''success'' of
               Inl error \<Rightarrow> show_error error s
             | Inr success \<Rightarrow>
                 if truthy success
                 then setTimeout GoToDashboard
                        (showMessage (message_or result success_message) ''success'' (stopOtpTimer s))
                 else showMessage (message_or result ''Invalid verification code'') ''error'' s))"

subsection \<open>Resending the code\<close>

text \<open>\<^verbatim>\<open>document.getElementById(id)?.value.trim()\<close>, then \<^verbatim>\<open>|| null\<close>.\<close>

definition optional_field :: "state \<Rightarrow> string \<Rightarrow> jsval" where
  "optional_field s ident =
     (case dom s ident of None \<Rightarrow> JNull | Some el \<Rightarrow> or_null (trim (elem_value el)))"

definition resendOtp :: "state \<Rightarrow> state \<times> completion" where
  "resendOtp s =
     (case otp_dataset s ''identifier'' of
        None \<Rightarrow> (showMessage ''Error retrieving information'' ''error'' s, Returned)
      | Some identifier \<Rightarrow>
          if identifier = []
          then (showMessage ''Error retrieving information'' ''error'' s, Returned)
          else if otp_dataset s ''type'' = Some ''register''
          then (backToForm (showMessage ''Please fill out the registration form again'' ''info'' s),
                Returned)
          else if otp_dataset s ''type'' = Some ''login''
          then (await_api ''/login'' ''POST''
                  (Some [(''email'', optional_field s ''loginEmail''),
                         (''phone'', optional_field s ''loginPhone'')])
                  AfterResend s,
                Awaiting)
          else (s, Returned))"

definition resendOtp_resume :: "js_error + jsval \<Rightarrow> state \<Rightarrow> state" where
  "resendOtp_resume r s =
     (case r of
        Inl error \<Rightarrow> showMessage ''Server connection error'' ''error'' s
      | Inr result \<Rightarrow>
          (case member result ''success'' of
             Inl error \<Rightarrow> showMessage ''Server connection error'' ''error'' s
           | Inr success \<Rightarrow>
               if truthy success
               then showMessage ''Verification code resent'' ''success'' (startOtpTimer s)
               else showMessage (message_or result ''Error resending code'') ''error'' s))"

subsection \<open>Logout and the session check\<close>

definition logout :: "state \<Rightarrow> state \<times> completion" where
  "logout s = (await_api ''/logout'' ''POST'' None AfterLogout s, Awaiting)"

definition logout_resume :: "js_error + jsval \<Rightarrow> state \<Rightarrow> state" where
  "logout_resume r s =
     (case r of
        Inl error \<Rightarrow> s\<lparr> location_href := ''index.html'' \<rparr>
      | Inr result \<Rightarrow>
          (case member result ''success'' of
             Inl error \<Rightarrow> s\<lparr> location_href := ''index.html'' \<rparr>
           | Inr success \<Rightarrow>
               if truthy success then s\<lparr> location_href := ''index.html'' \<rparr> else s))"

definition checkAuthStatus :: "state \<Rightarrow> state \<times> completion" where
  "checkAuthStatus s = (await_api ''/check-auth'' ''GET'' None AfterCheckAuth s, Awaiting)"

definition checkAuthStatus_resume :: "js_error + jsval \<Rightarrow> state \<Rightarrow> state" where
  "checkAuthStatus_resume r s =
     (case r of
        Inl error \<Rightarrow> s
      | Inr result \<Rightarrow>
          (case member result ''success'' of
             Inl error \<Rightarrow> s
           | Inr success \<Rightarrow>
               if truthy success \<and> truthy (opt_member result ''authenticated'')
               then s\<lparr> location_href := ''dashboard.html'' \<rparr>
               else s))"

text \<open>The marks \<^verbatim>\<open>loadUserInfo\<close> puts before the email and the phone, each with the
  space that follows it. The source file holds the characters U+00F0 U+0178 U+201C U+00A7
  for the email and U+00F0 U+0178 U+201C U+00B1 for the phone (a pictograph whose UTF-8
  bytes were read as Windows-1252). U+0178 and U+201C lie beyond Latin-1, so each character
  is written here by its Windows-1252 code.\<close>

definition email_mark :: string where
  "email_mark = [CHR 0xF0, CHR 0x9F, CHR 0x93, CHR 0xA7, CHR '' '']"

definition phone_mark :: string where
  "phone_mark = [CHR 0xF0, CHR 0x9F, CHR 0x93, CHR 0xB1, CHR '' '']"

definition loadUserInfo :: "state \<Rightarrow> state \<times> completion" where
  "loadUserInfo s = (await_api ''/check-auth'' ''GET'' None AfterLoadUserInfo s, Awaiting)"

text \<open>One of the two optional lines of the dashboard: shown with its mark when the user
  has the field, hidden otherwise.\<close>

definition show_user_field :: "string \<Rightarrow> string \<Rightarrow> jsval \<Rightarrow> state \<Rightarrow> state" where
  "show_user_field ident mark v s =
     update_element ident
       (\<lambda>el. if truthy v then el\<lparr> textContent := mark @ to_str v, display := ''block'' \<rparr>
             else el\<lparr> display := ''none'' \<rparr>)
       s"

definition loadUserInfo_resume :: "js_error + jsval \<Rightarrow> state \<Rightarrow> state" where
  "loadUserInfo_resume r s =
     (case r of
        Inl error \<Rightarrow> s\<lparr> location_href := ''index.html'' \<rparr>
      | Inr result \<Rightarrow>
          (case member result ''success'' of
             Inl error \<Rightarrow> s\<lparr> location_href := ''index.html'' \<rparr>
           | Inr success \<Rightarrow>
               if truthy success \<and> truthy (opt_member result ''authenticated'') \<and>
                  truthy (opt_member result ''user'')
               then
                 (let user = opt_member result ''user'';
                      s1 = update_element ''userName''
                             (\<lambda>el. el\<lparr> textContent := to_str (opt_member user ''first_name'') @ '' '' @
                                                          to_str (opt_member user ''last_name'') \<rparr>) s;
                      s2 = show_user_field ''userEmail'' email_mark (opt_member user ''email'') s1
                  in show_user_field ''userPhone'' phone_mark (opt_member user ''phone'') s2)
               else s\<lparr> location_href := ''index.html'' \<rparr>))"

section \<open>The event loop\<close>

text \<open>
  Everything that runs client code: a call of one of the functions (from a button, a key
  or the page), an edit of a field, a tick of a running interval, a pending timeout, and
  the settling of a fetch in flight. A navigation is recorded in \<open>location_href\<close>;
  the model lets the page run on after it.
\<close>

datatype event =
    CallRegister
  | CallLogin
  | CallVerifyOtp
  | CallResendOtp
  | CallBackToForm
  | CallLogout
  | CallCheckAuthStatus
  | CallLoadUserInfo
  | UserInput string string
  | IntervalFires nat
  | TimeoutFires nat
  | FetchSettles nat fetch_outcome

definition remove_nth :: "nat \<Rightarrow> 'a list \<Rightarrow> 'a list" where
  "remove_nth i xs = take i xs @ drop (Suc i) xs"

fun resume :: "continuation \<Rightarrow> js_error + jsval \<Rightarrow> state \<Rightarrow> state" where
  "resume (AfterRegister email phone) r s = register_resume email phone r s"
| "resume (AfterLogin email phone) r s = login_resume email phone r s"
| "resume AfterVerifyRegister r s = verifyOtp_resume ''Registration successful'' r s"
| "resume AfterVerifyLogin r s = verifyOtp_resume ''Login successful'' r s"
| "resume AfterResend r s = resendOtp_resume r s"
| "resume AfterLogout r s = logout_resume r s"
| "resume AfterCheckAuth r s = checkAuthStatus_resume r s"
| "resume AfterLoadUserInfo r s = loadUserInfo_resume r s"

fun run_timeout :: "timeout_action \<Rightarrow> state \<Rightarrow> state" where
  "run_timeout HideMessage s = update_element ''message'' (\<lambda>m. m\<lparr> display := ''none'' \<rparr>) s"
| "run_timeout GoToDashboard s = s\<lparr> location_href := ''dashboard.html'' \<rparr>"

fun fire :: "event \<Rightarrow> state \<Rightarrow> state" where
  "fire CallRegister s = fst (register s)"
| "fire CallLogin s = fst (login s)"
| "fire CallVerifyOtp s = fst (verifyOtp s)"
| "fire CallResendOtp s = fst (resendOtp s)"
| "fire CallBackToForm s = backToForm s"
| "fire CallLogout s = fst (logout s)"
| "fire CallCheckAuthStatus s = fst (checkAuthStatus s)"
| "fire CallLoadUserInfo s = fst (loadUserInfo s)"
| "fire (UserInput ident txt) s = user_input ident txt s"
| "fire (IntervalFires h) s = (if h \<in> set (intervals s) then timer_tick s else s)"
| "fire (TimeoutFires i) s =
     (if i < length (timeouts s)
      then run_timeout (timeouts s ! i) (s\<lparr> timeouts := remove_nth i (timeouts s) \<rparr>)
      else s)"
| "fire (FetchSettles i outcome) s =
     (if i < length (in_flight s)
      then resume (snd (in_flight s ! i)) (api_result outcome)
             (s\<lparr> in_flight := remove_nth i (in_flight s) \<rparr>)
      else s)"

text \<open>The interval \<open>h\<close> fires \<open>k\<close> times in a row.\<close>

fun fires :: "nat \<Rightarrow> nat \<Rightarrow> state \<Rightarrow> state" where
  "fires 0 h s = s"
| "fires (Suc k) h s = fire (IntervalFires h) (fires k h s)"

text \<open>The state when the script has loaded: no timer, no request, the flag down. The
  browser's timer handles are greater than zero.\<close>

definition initial :: "state \<Rightarrow> bool" where
  "initial s =
     (otpTimerInterval s = None \<and> otpTimerSeconds s = 300 \<and> \<not> isVerifyingOtp s \<and>
      intervals s = [] \<and> timeouts s = [] \<and> in_flight s = [] \<and> 0 < next_handle s)"

inductive reachable :: "state \<Rightarrow> bool" where
  start: "initial s \<Longrightarrow> reachable s"
| step: "reachable s \<Longrightarrow> reachable (fire e s)"

text \<open>The settled login requests that take \<^verbatim>\<open>login\<close> into its direct-login branch:
  \<^verbatim>\<open>result.success\<close> and \<^verbatim>\<open>result.data?.direct_login || result.direct_login\<close> both hold.\<close>

definition indicates_direct_login :: "js_error + jsval \<Rightarrow> bool" where
  "indicates_direct_login r =
     (case r of
        Inl error \<Rightarrow> False
      | Inr result \<Rightarrow>
          (case member result ''success'' of
             Inl error \<Rightarrow> False
           | Inr success \<Rightarrow> truthy success \<and> direct_login result))"

section \<open>The two guards as state invariants\<close>

text \<open>The continuations of \<^verbatim>\<open>verifyOtp\<close>, and the number of its requests in flight.\<close>

fun is_verify :: "continuation \<Rightarrow> bool" where
  "is_verify AfterVerifyRegister = True"
| "is_verify AfterVerifyLogin = True"
| "is_verify k = False"

definition verify_pending :: "state \<Rightarrow> nat" where
  "verify_pending s = length (filter is_verify (map snd (in_flight s)))"

text \<open>The flag is up exactly while one verification request is in flight.\<close>

definition verify_inv :: "state \<Rightarrow> bool" where
  "verify_inv s = (verify_pending s = (if isVerifyingOtp s then 1 else 0))"

text \<open>The running intervals are the one interval the module variable holds, if any; its
  handle is not zero and has been handed out.\<close>

definition timer_inv :: "state \<Rightarrow> bool" where
  "timer_inv s =
     (0 < next_handle s \<and>
      (case otpTimerInterval s of
         None \<Rightarrow> intervals s = []
       | Some h \<Rightarrow> intervals s = [h] \<and> 0 < h \<and> h < next_handle s))"

section \<open>Example pages\<close>

text \<open>Concrete pages and states on which the theorems below are exercised.\<close>

definition plain_element :: "string \<Rightarrow> element" where
  "plain_element v =
     \<lparr> elem_value = v, textContent = [], className = [], classList = [], display = [],
       disabled = False, dataset = Map.empty, btn_text_display = None,
       btn_loader_display = None \<rparr>"

definition loaded :: "(string \<times> element) list \<Rightarrow> state" where
  "loaded page =
     \<lparr> dom = map_of page, otpTimerInterval = None, otpTimerSeconds = 300,
       isVerifyingOtp = False, location_href = ''index.html'', intervals = [], timeouts = [],
       next_handle = 1, in_flight = [] \<rparr>"

definition register_page :: "string \<Rightarrow> string \<Rightarrow> string \<Rightarrow> string \<Rightarrow> state" where
  "register_page firstName lastName email phone =
     loaded [(''message'', plain_element []), (''registerBtn'', plain_element []),
             (''firstName'', plain_element firstName), (''lastName'', plain_element lastName),
             (''registerEmail'', plain_element email), (''registerPhone'', plain_element phone)]"

text \<open>The login page with its OTP form, as \<^verbatim>\<open>showOtpForm\<close> leaves the form's
  \<^verbatim>\<open>dataset\<close> for the given type and identifier, and a code in the code field.\<close>

definition otp_page :: "string \<Rightarrow> string \<Rightarrow> string \<Rightarrow> state" where
  "otp_page type identifier code =
     loaded [(''message'', plain_element []), (''verifyOtpBtn'', plain_element []),
             (''loginEmail'', plain_element identifier), (''loginPhone'', plain_element []),
             (''loginForm'', plain_element []), (''registerForm'', plain_element []),
             (''otpTimer'', plain_element []), (''otpCode'', plain_element code),
             (''otpForm'', (plain_element [])\<lparr> dataset := [''type'' \<mapsto> type, ''identifier'' \<mapsto> identifier] \<rparr>)]"

text \<open>The value of the documented answer to a login that needs a code.\<close>

definition otp_response :: jsval where
  "otp_response = JObj [(''success'', JBool True), (''message'', JStr ''Verification code sent''),
      (''data'', JObj [(''identifier'', JStr ''ali@example.com''), (''requires_verification'', JBool True)])]"

text \<open>The dashboard, from which \<^verbatim>\<open>logout\<close> is called, and two answers of the server: a
  logout refused with status 200, and a rejection whose message speaks of fetching.\<close>

definition dashboard :: state where
  "dashboard = (loaded [])\<lparr> location_href := ''dashboard.html'' \<rparr>"

definition logout_refused :: "nat \<Rightarrow> response" where
  \<open>logout_refused st =
     \<lparr> status = st, content_type = Some ''application/json; charset=utf-8'',
       body_text = Inr ''{"success": false, "message": "No active session"}'',
       parsed = Some (JObj [(''success'', JBool False), (''message'', JStr ''No active session'')]) \<rparr>\<close>

definition user_not_fetched :: response where
  \<open>user_not_fetched =
     \<lparr> status = 404, content_type = Some ''application/json; charset=utf-8'',
       body_text = Inr ''{"success": false, "message": "Failed to fetch user"}'',
       parsed = Some (JObj [(''success'', JBool False), (''message'', JStr ''Failed to fetch user'')]) \<rparr>\<close>

text \<open>The login page with the email filled in, and an answer to the login whose
  identifier is an empty array.\<close>

definition login_page :: "string \<Rightarrow> state" where
  "login_page email =
     loaded [(''message'', plain_element []), (''loginBtn'', plain_element []),
             (''loginEmail'', plain_element email), (''loginPhone'', plain_element []),
             (''loginForm'', plain_element []), (''otpForm'', plain_element []),
             (''otpIdentifier'', plain_element []), (''otpCode'', plain_element []),
             (''otpTimer'', plain_element []), (''verifyOtpBtn'', plain_element [])]"

definition empty_identifier_answer :: response where
  \<open>empty_identifier_answer =
     \<lparr> status = 200, content_type = Some ''application/json; charset=utf-8'',
       body_text = Inr ''{"success": true, "data": {"identifier": []}}'',
       parsed = Some (JObj [(''success'', JBool True), (''data'', JObj [(''identifier'', JArr [])])]) \<rparr>\<close>

text \<open>The documented answer to a login that needs a code.\<close>

definition otp_answer :: response where
  \<open>otp_answer =
     \<lparr> status = 200, content_type = Some ''application/json; charset=utf-8'',
       body_text = Inr ''{"success": true, "message": "Verification code sent", "data": {"identifier": "ali@example.com", "requires_verification": true}}'',
       parsed = Some otp_response \<rparr>\<close>

text \<open>The documented answer to a login made with a valid session.\<close>

definition direct_answer :: response where
  \<open>direct_answer =
     \<lparr> status = 200, content_type = Some ''application/json; charset=utf-8'',
       body_text = Inr ''{"success": true, "data": {"direct_login": true, "user": {"first_name": "Ali", "last_name": "Ahmadi"}}}'',
       parsed = Some (JObj [(''success'', JBool True),
                  (''data'', JObj [(''direct_login'', JBool True),
                     (''user'', JObj [(''first_name'', JStr ''Ali''), (''last_name'', JStr ''Ahmadi'')])])]) \<rparr>\<close>

section \<open>Properties of the request\<close>

lemma map_of_clean_loop:
  "map_of (clean_loop data ks acc) k =
     (if k \<in> set ks \<and> get_prop data k \<noteq> JNull \<and> get_prop data k \<noteq> JUndefined \<and> get_prop data k \<noteq> JStr []
      then Some (get_prop data k) else map_of acc k)"
  by (induction ks arbitrary: acc) (auto simp: assign_def update_conv')

section \<open>What the helper functions leave alone\<close>

lemma update_element_frame [simp]:
  "otpTimerInterval (update_element i f s) = otpTimerInterval s"
  "otpTimerSeconds (update_element i f s) = otpTimerSeconds s"
  "isVerifyingOtp (update_element i f s) = isVerifyingOtp s"
  "location_href (update_element i f s) = location_href s"
  "intervals (update_element i f s) = intervals s"
  "timeouts (update_element i f s) = timeouts s"
  "next_handle (update_element i f s) = next_handle s"
  "in_flight (update_element i f s) = in_flight s"
  by (simp_all add: update_element_def split: option.split)

lemma dom_update_element:
  "dom (update_element i f s) j = (if j = i then map_option f (dom s i) else dom s j)"
  by (simp add: update_element_def split: option.split)

lemma dom_update_element_other [simp]:
  "j \<noteq> i \<Longrightarrow> dom (update_element i f s) j = dom s j"
  by (simp add: dom_update_element)

lemma dom_update_element_None [simp]:
  "(dom (update_element i f s) j = None) = (dom s j = None)"
  by (simp add: dom_update_element)

lemma setTimeout_frame [simp]:
  "dom (setTimeout a s) = dom s"
  "otpTimerInterval (setTimeout a s) = otpTimerInterval s"
  "otpTimerSeconds (setTimeout a s) = otpTimerSeconds s"
  "isVerifyingOtp (setTimeout a s) = isVerifyingOtp s"
  "location_href (setTimeout a s) = location_href s"
  "intervals (setTimeout a s) = intervals s"
  "in_flight (setTimeout a s) = in_flight s"
  by (simp_all add: setTimeout_def)

lemma showMessage_frame [simp]:
  "otpTimerInterval (showMessage m t s) = otpTimerInterval s"
  "otpTimerSeconds (showMessage m t s) = otpTimerSeconds s"
  "isVerifyingOtp (showMessage m t s) = isVerifyingOtp s"
  "location_href (showMessage m t s) = location_href s"
  "intervals (showMessage m t s) = intervals s"
  "in_flight (showMessage m t s) = in_flight s"
  by (simp_all add: showMessage_def split: option.split)

lemma dom_showMessage_other [simp]:
  "j \<noteq> ''message'' \<Longrightarrow> dom (showMessage m t s) j = dom s j"
  by (simp add: showMessage_def split: option.split)

lemma dom_showMessage_None [simp]:
  "(dom (showMessage m t s) j = None) = (dom s j = None)"
  by (simp add: showMessage_def split: option.split)

lemma next_handle_showMessage: "next_handle s \<le> next_handle (showMessage m t s)"
  by (simp add: showMessage_def setTimeout_def split: option.split)

lemma show_error_frame [simp]:
  "otpTimerInterval (show_error e s) = otpTimerInterval s"
  "otpTimerSeconds (show_error e s) = otpTimerSeconds s"
  "isVerifyingOtp (show_error e s) = isVerifyingOtp s"
  "location_href (show_error e s) = location_href s"
  "intervals (show_error e s) = intervals s"
  "in_flight (show_error e s) = in_flight s"
  by (simp_all add: show_error_def)

lemma dom_show_error_other [simp]:
  "j \<noteq> ''message'' \<Longrightarrow> dom (show_error e s) j = dom s j"
  by (simp add: show_error_def)

lemma next_handle_show_error: "next_handle s \<le> next_handle (show_error e s)"
  by (simp add: show_error_def next_handle_showMessage)

lemma setLoading_frame [simp]:
  "otpTimerInterval (setLoading b l s) = otpTimerInterval s"
  "otpTimerSeconds (setLoading b l s) = otpTimerSeconds s"
  "isVerifyingOtp (setLoading b l s) = isVerifyingOtp s"
  "location_href (setLoading b l s) = location_href s"
  "intervals (setLoading b l s) = intervals s"
  "timeouts (setLoading b l s) = timeouts s"
  "next_handle (setLoading b l s) = next_handle s"
  "in_flight (setLoading b l s) = in_flight s"
  by (simp_all add: setLoading_def)

lemma dom_setLoading_other [simp]:
  "j \<noteq> b \<Longrightarrow> dom (setLoading b l s) j = dom s j"
  by (simp add: setLoading_def)

lemma await_api_frame [simp]:
  "dom (await_api ep m d k s) = dom s"
  "otpTimerInterval (await_api ep m d k s) = otpTimerInterval s"
  "otpTimerSeconds (await_api ep m d k s) = otpTimerSeconds s"
  "isVerifyingOtp (await_api ep m d k s) = isVerifyingOtp s"
  "location_href (await_api ep m d k s) = location_href s"
  "intervals (await_api ep m d k s) = intervals s"
  "timeouts (await_api ep m d k s) = timeouts s"
  "next_handle (await_api ep m d k s) = next_handle s"
  "in_flight (await_api ep m d k s) = in_flight s @ [(api_fetch ep m d, k)]"
  by (simp_all add: await_api_def)

lemma api_fetch_fields [simp]:
  "url (api_fetch ep m d) = API_BASE_URL @ ep"
  "req_method (api_fetch ep m d) = m"
  by (simp_all add: api_fetch_def api_options_def Let_def split: option.split)

lemma dom_loaded [simp]: "dom (loaded page) = map_of page"
  and in_flight_loaded [simp]: "in_flight (loaded page) = []"
  by (simp_all add: loaded_def)

lemma trimmed_value_Some: "dom s i = Some el \<Longrightarrow> trimmed_value s i = Inr (trim (elem_value el))"
  by (simp add: trimmed_value_def)

lemma digit_not_space: "is_digit c \<Longrightarrow> \<not> is_js_space c"
  by (auto simp: is_digit_def is_js_space_def Let_def)

lemma dropWhile_no_space: "list_all is_digit v \<Longrightarrow> dropWhile is_js_space v = v"
  by (cases v) (simp_all add: digit_not_space)

lemma trim_digits: "list_all is_digit v \<Longrightarrow> trim v = v"
proof -
  assume a: "list_all is_digit v"
  then have "list_all is_digit (rev v)" by (simp add: list_all_iff)
  then have "dropWhile is_js_space (rev v) = rev v" by (rule dropWhile_no_space)
  with a show ?thesis by (simp add: trim_def dropWhile_no_space)
qed

lemma dom_otp_input_listener:
  "dom s ''otpCode'' = Some c \<Longrightarrow>
   dom (otp_input_listener s) ''otpCode'' = Some (c\<lparr> elem_value := filter is_digit (elem_value c) \<rparr>)"
  by (simp add: otp_input_listener_def dom_update_element)

lemma otp_input_listener_frame [simp]:
  "isVerifyingOtp (otp_input_listener s) = isVerifyingOtp s"
  "in_flight (otp_input_listener s) = in_flight s"
  by (simp_all add: otp_input_listener_def)

lemma verifyOtp_sends_only_length_6:
  assumes "dom s ''otpCode'' = Some c" and "in_flight (fst (verifyOtp s)) \<noteq> in_flight s"
  shows "length (trim (elem_value c)) = 6"
  using assms
  by (auto simp: verifyOtp_def trimmed_value_def verify_finally_def Let_def
      split: if_splits option.splits)

lemma dom_otp_page [simp]: "dom (otp_page t i c) ''otpCode'' = Some (plain_element c)"
  by (simp add: otp_page_def)

lemma login_resume_direct:
  "indicates_direct_login r \<Longrightarrow>
   login_resume email phone r s = setLoading ''loginBtn'' False (s\<lparr> location_href := ''dashboard.html'' \<rparr>)"
  by (auto simp: indicates_direct_login_def login_resume_def split: sum.splits)

lemmas api_eval = api_result_def api_try_def api_catch_def toLowerCase_def lower_char_def ok_def
  or_else_def get_prop_def trim_def is_js_space_def connection_error_def

lemma stopOtpTimer_frame [simp]:
  "dom (stopOtpTimer s) = dom s"
  "otpTimerSeconds (stopOtpTimer s) = otpTimerSeconds s"
  "isVerifyingOtp (stopOtpTimer s) = isVerifyingOtp s"
  "location_href (stopOtpTimer s) = location_href s"
  "timeouts (stopOtpTimer s) = timeouts s"
  "next_handle (stopOtpTimer s) = next_handle s"
  "in_flight (stopOtpTimer s) = in_flight s"
  by (simp_all add: stopOtpTimer_def split: option.split)

lemma updateTimerDisplay_frame [simp]:
  "otpTimerInterval (updateTimerDisplay s) = otpTimerInterval s"
  "otpTimerSeconds (updateTimerDisplay s) = otpTimerSeconds s"
  "isVerifyingOtp (updateTimerDisplay s) = isVerifyingOtp s"
  "location_href (updateTimerDisplay s) = location_href s"
  "intervals (updateTimerDisplay s) = intervals s"
  "timeouts (updateTimerDisplay s) = timeouts s"
  "next_handle (updateTimerDisplay s) = next_handle s"
  "in_flight (updateTimerDisplay s) = in_flight s"
  by (simp_all add: updateTimerDisplay_def)

lemma dom_updateTimerDisplay_other [simp]:
  "j \<noteq> ''otpTimer'' \<Longrightarrow> dom (updateTimerDisplay s) j = dom s j"
  by (simp add: updateTimerDisplay_def)

lemma dom_updateTimerDisplay_None [simp]:
  "(dom (updateTimerDisplay s) j = None) = (dom s j = None)"
  by (simp add: updateTimerDisplay_def)

lemma startOtpTimer_frame [simp]:
  "otpTimerSeconds (startOtpTimer s) = 300"
  "isVerifyingOtp (startOtpTimer s) = isVerifyingOtp s"
  "location_href (startOtpTimer s) = location_href s"
  "timeouts (startOtpTimer s) = timeouts s"
  "in_flight (startOtpTimer s) = in_flight s"
  by (simp_all add: startOtpTimer_def Let_def split: option.split)

lemma dom_startOtpTimer_other [simp]:
  "j \<noteq> ''otpTimer'' \<Longrightarrow> dom (startOtpTimer s) j = dom s j"
  by (simp add: startOtpTimer_def Let_def split: option.split)

lemma startOtpTimer_installs:
  "dom s ''otpTimer'' \<noteq> None \<Longrightarrow>
   otpTimerInterval (startOtpTimer s) = Some (next_handle s) \<and>
   next_handle s \<in> set (intervals (startOtpTimer s))"
  by (auto simp: startOtpTimer_def Let_def split: option.split)

lemma backToForm_frame [simp]:
  "isVerifyingOtp (backToForm s) = isVerifyingOtp s"
  "location_href (backToForm s) = location_href s"
  "timeouts (backToForm s) = timeouts s"
  "next_handle (backToForm s) = next_handle s"
  "in_flight (backToForm s) = in_flight s"
  by (simp_all add: backToForm_def Let_def split: option.split)

lemma backToForm_register:
  assumes "dom s ''otpForm'' = Some f" and "dataset f ''type'' = Some ''register''"
  shows "dom (backToForm s) ''otpForm'' = Some (f\<lparr> display := ''none'' \<rparr>)"
    and "dom s ''registerForm'' = Some rf \<Longrightarrow>
         dom (backToForm s) ''registerForm'' = Some (rf\<lparr> display := ''block'' \<rparr>)"
  using assms by (simp_all add: backToForm_def Let_def dom_update_element)

lemma otp_dataset_Some:
  "otp_dataset s name = Some v \<Longrightarrow> \<exists>f. dom s ''otpForm'' = Some f \<and> dataset f name = Some v"
  by (simp add: otp_dataset_def split: option.splits)

lemma otp_dataset_otp_page [simp]:
  "otp_dataset (otp_page t i c) ''type'' = Some t"
  "otp_dataset (otp_page t i c) ''identifier'' = Some i"
  by (simp_all add: otp_dataset_def otp_page_def)

section \<open>The timer invariant\<close>

lemma timer_inv_update_element [simp]: "timer_inv (update_element i f s) = timer_inv s"
  by (simp add: timer_inv_def split: option.split)

lemma timer_inv_setLoading [simp]: "timer_inv (setLoading b l s) = timer_inv s"
  by (simp add: timer_inv_def split: option.split)

lemma timer_inv_updateTimerDisplay [simp]: "timer_inv (updateTimerDisplay s) = timer_inv s"
  by (simp add: timer_inv_def split: option.split)

lemma timer_inv_await_api [simp]: "timer_inv (await_api ep m d k s) = timer_inv s"
  by (simp add: timer_inv_def split: option.split)

lemma timer_inv_fields [simp]:
  "timer_inv (s\<lparr> location_href := x \<rparr>) = timer_inv s"
  "timer_inv (s\<lparr> isVerifyingOtp := b \<rparr>) = timer_inv s"
  "timer_inv (s\<lparr> in_flight := fs \<rparr>) = timer_inv s"
  "timer_inv (s\<lparr> timeouts := ts \<rparr>) = timer_inv s"
  "timer_inv (s\<lparr> otpTimerSeconds := n \<rparr>) = timer_inv s"
  by (simp_all add: timer_inv_def split: option.split)

lemma timer_inv_setTimeout [simp]: "timer_inv s \<Longrightarrow> timer_inv (setTimeout a s)"
  by (auto simp: timer_inv_def setTimeout_def split: option.splits)

lemma timer_inv_showMessage [simp]: "timer_inv s \<Longrightarrow> timer_inv (showMessage m t s)"
  by (auto simp: showMessage_def timer_inv_def setTimeout_def split: option.splits)

lemma timer_inv_show_error [simp]: "timer_inv s \<Longrightarrow> timer_inv (show_error e s)"
  by (simp add: show_error_def)

lemma stopOtpTimer_stops:
  "timer_inv s \<Longrightarrow> intervals (stopOtpTimer s) = [] \<and> otpTimerInterval (stopOtpTimer s) = None"
  by (auto simp: timer_inv_def stopOtpTimer_def split: option.splits)

lemma timer_inv_stopOtpTimer [simp]: "timer_inv s \<Longrightarrow> timer_inv (stopOtpTimer s)"
  using stopOtpTimer_stops [of s] by (simp add: timer_inv_def split: option.split)

lemma startOtpTimer_restarts:
  assumes "timer_inv s"
  shows "intervals (startOtpTimer s) = (if dom s ''otpTimer'' = None then [] else [next_handle s])"
    and "otpTimerInterval (startOtpTimer s) = (if dom s ''otpTimer'' = None then None else Some (next_handle s))"
    and "next_handle (startOtpTimer s) = (if dom s ''otpTimer'' = None then next_handle s else Suc (next_handle s))"
proof -
  have "timer_inv (s\<lparr> otpTimerSeconds := 300 \<rparr>)" using assms by simp
  from stopOtpTimer_stops [OF this]
  show "intervals (startOtpTimer s) = (if dom s ''otpTimer'' = None then [] else [next_handle s])"
    and "otpTimerInterval (startOtpTimer s) = (if dom s ''otpTimer'' = None then None else Some (next_handle s))"
    and "next_handle (startOtpTimer s) = (if dom s ''otpTimer'' = None then next_handle s else Suc (next_handle s))"
    by (auto simp: startOtpTimer_def Let_def split: option.splits)
qed

lemma timer_inv_startOtpTimer [simp]: "timer_inv s \<Longrightarrow> timer_inv (startOtpTimer s)"
  using startOtpTimer_restarts [of s] by (simp add: timer_inv_def split: option.split)

lemma timer_inv_timer_tick [simp]: "timer_inv s \<Longrightarrow> timer_inv (timer_tick s)"
  by (simp add: timer_tick_def Let_def)

lemma timer_tick_stops:
  "timer_inv s \<Longrightarrow> otpTimerSeconds s \<le> 1 \<Longrightarrow>
   intervals (timer_tick s) = [] \<and> otpTimerInterval (timer_tick s) = None"
  using stopOtpTimer_stops [of "updateTimerDisplay (s\<lparr> otpTimerSeconds := otpTimerSeconds s - 1 \<rparr>)"]
  by (simp add: timer_tick_def Let_def)

lemma timer_inv_showOtpForm [simp]: "timer_inv s \<Longrightarrow> timer_inv (fst (showOtpForm i t s))"
  by (simp add: showOtpForm_def Let_def split: option.split)

lemma timer_inv_backToForm [simp]: "timer_inv s \<Longrightarrow> timer_inv (backToForm s)"
  by (simp add: backToForm_def Let_def split: option.split)

lemma timer_inv_resume: "timer_inv s \<Longrightarrow> timer_inv (resume k r s)"
  by (cases k)
     (simp_all add: register_resume_def login_resume_def verifyOtp_resume_def verify_finally_def
        resendOtp_resume_def logout_resume_def checkAuthStatus_resume_def
        loadUserInfo_resume_def show_user_field_def Let_def case_prod_beta
        split: sum.split option.split)

lemma timer_inv_calls:
  assumes "timer_inv s"
  shows "timer_inv (fst (register s))" and "timer_inv (fst (login s))"
    and "timer_inv (fst (verifyOtp s))" and "timer_inv (fst (resendOtp s))"
    and "timer_inv (fst (logout s))" and "timer_inv (fst (checkAuthStatus s))"
    and "timer_inv (fst (loadUserInfo s))"
  using assms
  by (simp_all add: register_def login_def verifyOtp_def verify_finally_def resendOtp_def
      logout_def checkAuthStatus_def loadUserInfo_def Let_def split: sum.split option.split)

lemma timer_inv_user_input: "timer_inv s \<Longrightarrow> timer_inv (user_input i t s)"
  by (simp add: user_input_def otp_input_listener_def Let_def)

lemma timer_inv_run_timeout: "timer_inv s \<Longrightarrow> timer_inv (run_timeout a s)"
  by (cases a) simp_all

lemma timer_inv_fire: "timer_inv s \<Longrightarrow> timer_inv (fire e s)"
  by (cases e) (simp_all add: timer_inv_calls timer_inv_user_input timer_inv_run_timeout timer_inv_resume)

lemma timer_inv_initial: "initial s \<Longrightarrow> timer_inv s"
  by (simp add: initial_def timer_inv_def)

lemma reachable_timer_inv: "reachable s \<Longrightarrow> timer_inv s"
  by (induction rule: reachable.induct) (simp_all add: timer_inv_initial timer_inv_fire)

section \<open>The verification invariant\<close>

lemma verify_pending_frame [simp]:
  "verify_pending (update_element i f s) = verify_pending s"
  "verify_pending (setLoading b l s) = verify_pending s"
  "verify_pending (showMessage m t s) = verify_pending s"
  "verify_pending (show_error e s) = verify_pending s"
  "verify_pending (setTimeout a s) = verify_pending s"
  "verify_pending (stopOtpTimer s) = verify_pending s"
  "verify_pending (startOtpTimer s) = verify_pending s"
  "verify_pending (backToForm s) = verify_pending s"
  "verify_pending (s\<lparr> location_href := x \<rparr>) = verify_pending s"
  "verify_pending (s\<lparr> isVerifyingOtp := flag \<rparr>) = verify_pending s"
  "verify_pending (s\<lparr> timeouts := ts \<rparr>) = verify_pending s"
  "verify_pending (s\<lparr> otpTimerSeconds := n \<rparr>) = verify_pending s"
  by (simp_all add: verify_pending_def)

lemma verify_pending_await_api [simp]:
  "verify_pending (await_api ep m d k s) = verify_pending s + (if is_verify k then 1 else 0)"
  by (simp add: verify_pending_def)

lemma timer_tick_frame [simp]:
  "isVerifyingOtp (timer_tick s) = isVerifyingOtp s"
  "location_href (timer_tick s) = location_href s"
  "in_flight (timer_tick s) = in_flight s"
  by (simp_all add: timer_tick_def Let_def)

lemma showOtpForm_frame [simp]:
  "isVerifyingOtp (fst (showOtpForm i t s)) = isVerifyingOtp s"
  "location_href (fst (showOtpForm i t s)) = location_href s"
  "in_flight (fst (showOtpForm i t s)) = in_flight s"
  by (simp_all add: showOtpForm_def Let_def split: option.split)

lemma user_input_frame [simp]:
  "isVerifyingOtp (user_input i t s) = isVerifyingOtp s"
  "location_href (user_input i t s) = location_href s"
  "in_flight (user_input i t s) = in_flight s"
  by (simp_all add: user_input_def otp_input_listener_def Let_def)

lemma run_timeout_frame [simp]:
  "isVerifyingOtp (run_timeout a s) = isVerifyingOtp s"
  "in_flight (run_timeout a s) = in_flight s"
  by (cases a; simp)+

lemma verify_pending_events [simp]:
  "verify_pending (timer_tick s) = verify_pending s"
  "verify_pending (user_input i t s) = verify_pending s"
  "verify_pending (run_timeout a s) = verify_pending s"
  "verify_pending (fst (showOtpForm v ty s)) = verify_pending s"
  by (simp_all add: verify_pending_def)

lemma verify_finally_frame [simp]:
  "isVerifyingOtp (verify_finally s) = False"
  "in_flight (verify_finally s) = in_flight s"
  by (simp_all add: verify_finally_def)

lemma resume_in_flight [simp]: "in_flight (resume k r s) = in_flight s"
  by (cases k)
     (simp_all add: register_resume_def login_resume_def verifyOtp_resume_def
        resendOtp_resume_def logout_resume_def checkAuthStatus_resume_def
        loadUserInfo_resume_def show_user_field_def Let_def case_prod_beta
        split: sum.split option.split)

lemma resume_flag:
  "isVerifyingOtp (resume k r s) = (if is_verify k then False else isVerifyingOtp s)"
  by (cases k)
     (simp_all add: register_resume_def login_resume_def verifyOtp_resume_def
        resendOtp_resume_def logout_resume_def checkAuthStatus_resume_def
        loadUserInfo_resume_def show_user_field_def Let_def case_prod_beta
        split: sum.split option.split)

lemma verify_inv_calls:
  assumes "verify_inv s"
  shows "verify_inv (fst (register s))" and "verify_inv (fst (login s))"
    and "verify_inv (fst (resendOtp s))"
    and "verify_inv (fst (logout s))" and "verify_inv (fst (checkAuthStatus s))"
    and "verify_inv (fst (loadUserInfo s))"
  using assms
  by (simp_all add: verify_inv_def register_def login_def resendOtp_def
      logout_def checkAuthStatus_def loadUserInfo_def Let_def split: sum.split option.split)

lemma verify_inv_verifyOtp: "verify_inv s \<Longrightarrow> verify_inv (fst (verifyOtp s))"
  by (simp add: verify_inv_def verifyOtp_def verify_finally_def Let_def
      split: sum.split option.split)

lemma filter_remove_nth:
  "i < length xs \<Longrightarrow>
   length (filter P (remove_nth i xs)) + (if P (xs ! i) then 1 else 0) = length (filter P xs)"
proof -
  assume "i < length xs"
  then have "xs = take i xs @ xs ! i # drop (Suc i) xs" by (rule id_take_nth_drop)
  then have "filter P xs = filter P (take i xs) @ filter P [xs ! i] @ filter P (drop (Suc i) xs)"
    by (metis append_Cons append_Nil filter_append)
  then show ?thesis by (simp add: remove_nth_def)
qed

lemma verify_inv_settle:
  assumes "verify_inv s" and "i < length (in_flight s)"
  shows "verify_inv (resume (snd (in_flight s ! i)) r (s\<lparr> in_flight := remove_nth i (in_flight s) \<rparr>))"
proof -
  let ?k = "snd (in_flight s ! i)"
  have "length (filter is_verify (remove_nth i (map snd (in_flight s)))) +
        (if is_verify (map snd (in_flight s) ! i) then 1 else 0) =
        length (filter is_verify (map snd (in_flight s)))"
    using assms(2) by (intro filter_remove_nth) simp
  moreover have "remove_nth i (map snd (in_flight s)) = map snd (remove_nth i (in_flight s))"
    by (simp add: remove_nth_def take_map drop_map)
  ultimately have "length (filter is_verify (map snd (remove_nth i (in_flight s)))) +
        (if is_verify ?k then 1 else 0) = verify_pending s"
    using assms(2) by (simp add: verify_pending_def)
  then show ?thesis
    using assms(1) by (auto simp: verify_inv_def verify_pending_def resume_flag split: if_splits)
qed

lemma verify_inv_fire: "verify_inv s \<Longrightarrow> verify_inv (fire e s)"
proof (cases e)
  case (FetchSettles i outcome)
  assume "verify_inv s"
  then show ?thesis using FetchSettles by (simp add: verify_inv_settle)
next
  case (IntervalFires h)
  assume "verify_inv s"
  then show ?thesis using IntervalFires by (simp add: verify_inv_def)
next
  case (TimeoutFires i)
  assume "verify_inv s"
  then show ?thesis using TimeoutFires by (simp add: verify_inv_def)
next
  case (UserInput i t)
  assume "verify_inv s"
  then show ?thesis using UserInput by (simp add: verify_inv_def)
next
  case CallBackToForm
  assume "verify_inv s"
  then show ?thesis using CallBackToForm by (simp add: verify_inv_def)
qed (simp_all add: verify_inv_calls verify_inv_verifyOtp)

lemma verify_inv_initial: "initial s \<Longrightarrow> verify_inv s"
  by (simp add: initial_def verify_inv_def verify_pending_def)

lemma reachable_verify_inv: "reachable s \<Longrightarrow> verify_inv s"
  by (induction rule: reachable.induct) (simp_all add: verify_inv_initial verify_inv_fire)

section \<open>Walking through a login\<close>

lemma initial_loaded [simp]: "initial (loaded page)"
  by (simp add: initial_def loaded_def)

lemma settle_only_request:
  "in_flight s = [] \<Longrightarrow>
   fire (FetchSettles 0 outcome) (await_api ep m d k s) = resume k (api_result outcome) s"
  by (cases s) (simp add: await_api_def remove_nth_def)

lemma login_page_login:
  "fire CallLogin (login_page ''ali@example.com'') =
     await_api ''/login'' ''POST'' (Some [(''email'', JStr ''ali@example.com''), (''phone'', JNull)])
       (AfterLogin ''ali@example.com'' []) (setLoading ''loginBtn'' True (login_page ''ali@example.com''))"
  by (simp add: login_def trimmed_value_def login_page_def plain_element_def trim_def
      is_js_space_def or_null_def)

lemma login_page_settled:
  "fire (FetchSettles 0 outcome) (fire CallLogin (login_page ''ali@example.com'')) =
     login_resume ''ali@example.com'' [] (api_result outcome)
       (setLoading ''loginBtn'' True (login_page ''ali@example.com''))"
proof -
  have "in_flight (setLoading ''loginBtn'' True (login_page ''ali@example.com'')) = []"
    by (simp add: login_page_def)
  then show ?thesis
    by (simp only: login_page_login settle_only_request resume.simps)
qed

lemma login_resume_in_flight [simp]: "in_flight (login_resume email phone r s) = in_flight s"
  using resume_in_flight [of "AfterLogin email phone" r s] by simp

lemma otp_answer_result: "api_result (Response otp_answer) = Inr otp_response"
  by (simp add: otp_answer_def otp_response_def api_eval)

lemma empty_identifier_result:
  "api_result (Response empty_identifier_answer) =
     Inr (JObj [(''success'', JBool True), (''data'', JObj [(''identifier'', JArr [])])])"
  by (simp add: empty_identifier_answer_def api_eval)

lemma login_page_otp_shown:
  "intervals (fire (FetchSettles 0 (Response otp_answer)) (fire CallLogin (login_page ''ali@example.com''))) = [1]"
  "next_handle (fire (FetchSettles 0 (Response otp_answer)) (fire CallLogin (login_page ''ali@example.com''))) = 3"
  "dom (fire (FetchSettles 0 (Response otp_answer)) (fire CallLogin (login_page ''ali@example.com''))) ''otpTimer'' \<noteq> None"
  "otp_dataset (fire (FetchSettles 0 (Response otp_answer)) (fire CallLogin (login_page ''ali@example.com''))) ''identifier'' = Some ''ali@example.com''"
  unfolding login_page_settled otp_answer_result
  by (simp_all add: login_resume_def otp_response_def
      get_prop_def or_else_def direct_login_def response_identifier_def showOtpForm_def
      login_page_def loaded_def update_element_def setLoading_def showMessage_def setTimeout_def
      startOtpTimer_def stopOtpTimer_def updateTimerDisplay_def otp_dataset_def Let_def)

lemma fire_settles:
  "i < length (in_flight s) \<Longrightarrow>
   fire (FetchSettles i outcome) s =
     resume (snd (in_flight s ! i)) (api_result outcome) (s\<lparr> in_flight := remove_nth i (in_flight s) \<rparr>)"
  by simp

lemma fire_tick: "h \<in> set (intervals s) \<Longrightarrow> fire (IntervalFires h) s = timer_tick s"
  by simp

lemma timer_tick_seconds: "otpTimerSeconds (timer_tick s) = otpTimerSeconds s - 1"
  by (simp add: timer_tick_def Let_def)

lemma timer_tick_runs_on:
  "1 < otpTimerSeconds s \<Longrightarrow>
   intervals (timer_tick s) = intervals s \<and> otpTimerInterval (timer_tick s) = otpTimerInterval s"
  by (simp add: timer_tick_def Let_def)

text \<open>A countdown: the interval keeps ticking while the counter is above zero, and the
  tick that takes it to zero stops it.\<close>

lemma countdown_runs:
  assumes "timer_inv s" and "intervals s = [h]" and "k < nat (otpTimerSeconds s)"
  shows "timer_inv (fires k h s) \<and>
         intervals (fires k h s) = [h] \<and>
         otpTimerSeconds (fires k h s) = otpTimerSeconds s - int k"
  using assms(3)
proof (induction k)
  case 0
  then show ?case using assms(1,2) by simp
next
  case (Suc k)
  let ?t = "fires k h s"
  from Suc have ih: "timer_inv ?t" "intervals ?t = [h]" "otpTimerSeconds ?t = otpTimerSeconds s - int k"
    by simp_all
  have f: "fire (IntervalFires h) ?t = timer_tick ?t" using ih(2) by simp
  have gt: "1 < otpTimerSeconds ?t" using Suc.prems ih(3) by linarith
  show ?case
    using ih gt timer_tick_runs_on [of ?t] timer_tick_seconds [of ?t]
    by (simp del: fire.simps add: f)
qed

lemma countdown_stops:
  assumes "timer_inv s" and "intervals s = [h]" and "0 < otpTimerSeconds s"
  shows "intervals (fires (nat (otpTimerSeconds s)) h s) = [] \<and>
         otpTimerSeconds (fires (nat (otpTimerSeconds s)) h s) = 0"
proof -
  obtain k where k: "nat (otpTimerSeconds s) = Suc k"
    using assms(3) by (cases "nat (otpTimerSeconds s)") simp_all
  let ?t = "fires k h s"
  have "k < nat (otpTimerSeconds s)" using k by simp
  from countdown_runs [OF assms(1,2) this]
  have t: "timer_inv ?t" "intervals ?t = [h]" "otpTimerSeconds ?t = otpTimerSeconds s - int k"
    by simp_all
  have one: "otpTimerSeconds ?t = 1" using t(3) k by linarith
  have f: "fire (IntervalFires h) ?t = timer_tick ?t" using t(2) by simp
  have "intervals (timer_tick ?t) = []" using timer_tick_stops [OF t(1)] one by simp
  moreover have "otpTimerSeconds (timer_tick ?t) = 0" using one by (simp add: timer_tick_seconds)
  ultimately show ?thesis
    by (simp del: fire.simps add: k f)
qed

lemma login_page_otp_seconds:
  "otpTimerSeconds (fire (FetchSettles 0 (Response otp_answer)) (fire CallLogin (login_page ''ali@example.com''))) = 300"
  unfolding login_page_settled otp_answer_result
  by (simp add: login_resume_def otp_response_def get_prop_def or_else_def direct_login_def
      case_prod_beta showOtpForm_def Let_def login_page_def loaded_def)

lemma otp_page_verifying:
  "fire CallVerifyOtp (otp_page ''login'' ''ali@example.com'' ''123456'') =
     await_api ''/verify-login-otp'' ''POST''
       (Some [(''identifier'', JStr ''ali@example.com''), (''otp'', JStr ''123456'')]) AfterVerifyLogin
       (setLoading ''verifyOtpBtn'' True
          ((otp_page ''login'' ''ali@example.com'' ''123456'')\<lparr> isVerifyingOtp := True \<rparr>))"
  by (simp add: verifyOtp_def trimmed_value_def plain_element_def trim_def is_js_space_def
      otp_page_def loaded_def otp_dataset_def)

lemma otp_page_retyped:
  "isVerifyingOtp (fire (UserInput ''otpCode'' ''12345'')
      (fire CallVerifyOtp (otp_page ''login'' ''ali@example.com'' ''123456'')))"
  "dom (fire (UserInput ''otpCode'' ''12345'')
      (fire CallVerifyOtp (otp_page ''login'' ''ali@example.com'' ''123456''))) ''otpCode'' =
     Some (plain_element ''12345'')"
  "dom (fire (UserInput ''otpCode'' ''12345'')
      (fire CallVerifyOtp (otp_page ''login'' ''ali@example.com'' ''123456''))) ''message'' =
     Some (plain_element [])"
  unfolding otp_page_verifying
  by (simp_all add: user_input_def otp_input_listener_def dom_update_element setLoading_def
      otp_page_def loaded_def plain_element_def is_digit_def)

lemma direct_answer_result:
  "api_result (Response direct_answer) =
     Inr (JObj [(''success'', JBool True),
                (''data'', JObj [(''direct_login'', JBool True),
                   (''user'', JObj [(''first_name'', JStr ''Ali''), (''last_name'', JStr ''Ahmadi'')])])])"
  by (simp add: direct_answer_def api_eval)

lemma direct_answer_indicates: "indicates_direct_login (api_result (Response direct_answer))"
  by (simp add: direct_answer_result indicates_direct_login_def direct_login_def get_prop_def or_else_def)

lemma login_page_otp_form:
  "otp_dataset (fire (FetchSettles 0 (Response otp_answer)) (fire CallLogin (login_page ''ali@example.com''))) ''type'' = Some ''login''"
  "location_href (fire (FetchSettles 0 (Response otp_answer)) (fire CallLogin (login_page ''ali@example.com''))) = ''index.html''"
  "in_flight (fire (FetchSettles 0 (Response otp_answer)) (fire CallLogin (login_page ''ali@example.com''))) = []"
  "dom (fire (FetchSettles 0 (Response otp_answer)) (fire CallLogin (login_page ''ali@example.com''))) ''message'' \<noteq> None"
  "map_option display (dom (fire (FetchSettles 0 (Response otp_answer)) (fire CallLogin (login_page ''ali@example.com''))) ''otpForm'') = Some ''block''"
  unfolding login_page_settled otp_answer_result
  by (simp_all add: login_resume_def otp_response_def get_prop_def or_else_def direct_login_def
      response_identifier_def showOtpForm_def login_page_def loaded_def update_element_def
      setLoading_def showMessage_def setTimeout_def startOtpTimer_def stopOtpTimer_def
      updateTimerDisplay_def otp_dataset_def Let_def plain_element_def)

lemma showMessage_text:
  "dom s ''message'' \<noteq> None \<Longrightarrow>
   map_option textContent (dom (showMessage m t s) ''message'') = Some m"
  by (auto simp: showMessage_def)

lemma resend_settled_with_success:
  assumes "otp_dataset s ''identifier'' = Some i" and "i \<noteq> []"
    and "otp_dataset s ''type'' = Some ''login''" and "in_flight s = []"
    and "api_result outcome = Inr result" and "member result ''success'' = Inr success"
    and "truthy success"
  shows "fire (FetchSettles 0 outcome) (fire CallResendOtp s) =
           showMessage ''Verification code resent'' ''success'' (startOtpTimer s)"
proof -
  have "fire CallResendOtp s =
      await_api ''/login'' ''POST''
        (Some [(''email'', optional_field s ''loginEmail''), (''phone'', optional_field s ''loginPhone'')])
        AfterResend s"
    using assms(1-3) by (simp add: resendOtp_def)
  then show ?thesis
    using assms(4-7) by (simp only: settle_only_request resume.simps) (simp add: resendOtp_resume_def)
qed

text \<open>
  C10. For every GET request, whatever data object is passed, the options of the fetch
  call carry no body.
\<close>

theorem get_request_has_no_body:
  "body (api_fetch endpoint ''GET'' data) = None"
  by (cases data) (simp_all add: api_fetch_def api_options_def)

text \<open>
  C2. For every request whose method is not GET and that is given a data object, the
  payload serialised into the body has exactly the keys of the data object whose values are
  not \<^verbatim>\<open>null\<close>, not \<^verbatim>\<open>undefined\<close> and not the empty string, each with the value
  it has in the data object; so no key of the payload carries one of these three values.
\<close>

theorem request_body_omits_empty_fields:
  assumes "method \<noteq> ''GET''"
  shows "body (api_fetch endpoint method (Some data)) = Some (cleanData data) \<and>
         (\<forall>k. (k \<in> fst ` set (cleanData data)) =
                (k \<in> fst ` set data \<and> get_prop data k \<noteq> JNull \<and>
                 get_prop data k \<noteq> JUndefined \<and> get_prop data k \<noteq> JStr [])) \<and>
         (\<forall>k. k \<in> fst ` set (cleanData data) \<longrightarrow>
                get_prop (cleanData data) k = get_prop data k \<and>
                get_prop (cleanData data) k \<noteq> JNull \<and>
                get_prop (cleanData data) k \<noteq> JUndefined \<and>
                get_prop (cleanData data) k \<noteq> JStr [])"
proof -
  let ?p = "cleanData data"
  have b: "body (api_fetch endpoint method (Some data)) = Some ?p"
    using assms by (simp add: api_fetch_def api_options_def)
  have m: "map_of ?p k =
      (if k \<in> fst ` set data \<and> get_prop data k \<noteq> JNull \<and> get_prop data k \<noteq> JUndefined \<and>
          get_prop data k \<noteq> JStr []
       then Some (get_prop data k) else None)" for k
    by (simp add: cleanData_def map_of_clean_loop)
  have keys: "(k \<in> fst ` set ?p) =
      (k \<in> fst ` set data \<and> get_prop data k \<noteq> JNull \<and> get_prop data k \<noteq> JUndefined \<and>
       get_prop data k \<noteq> JStr [])" for k
  proof -
    have "(k \<in> fst ` set ?p) = (map_of ?p k \<noteq> None)"
      by (simp add: map_of_eq_None_iff)
    then show ?thesis by (simp add: m)
  qed
  have vals: "get_prop ?p k = get_prop data k" if "k \<in> fst ` set ?p" for k
  proof -
    have "map_of ?p k = Some (get_prop data k)"
      using that keys [of k] by (simp add: m)
    then show ?thesis by (simp add: get_prop_def [of ?p])
  qed
  show ?thesis
    using b keys vals by simp
qed

theorem request_body_omits_empty_fields_witness:
  "body (api_fetch ''/login'' ''POST'' (Some [(''email'', JStr ''ali@example.com''), (''phone'', JNull)]))
     = Some [(''email'', JStr ''ali@example.com'')]"
proof -
  have ne: "''POST'' \<noteq> ''GET''" by simp
  have c: "cleanData [(''email'', JStr ''ali@example.com''), (''phone'', JNull)]
      = [(''email'', JStr ''ali@example.com'')]"
    by (simp add: cleanData_def get_prop_def assign_def)
  have "body (api_fetch ''/login'' ''POST'' (Some [(''email'', JStr ''ali@example.com''), (''phone'', JNull)]))
      = Some (cleanData [(''email'', JStr ''ali@example.com''), (''phone'', JNull)])"
    by (rule request_body_omits_empty_fields [OF ne, THEN conjunct1])
  then show ?thesis by (simp only: c)
qed

section \<open>Registration\<close>

text \<open>
  C1. Claimed: \<^verbatim>\<open>register\<close> fails with a validation message, and issues no request,
  exactly when both names are blank or no identifier is given. On a form with the first
  name filled in, the last name blank and an email given, neither condition holds, and
  \<^verbatim>\<open>register\<close> still stops with the message about the names and sends nothing.
\<close>

theorem register_one_blank_name_counterexample:
  "register (register_page ''Ali'' [] ''ali@example.com'' []) =
     (showMessage ''Please enter first name and last name'' ''error''
        (register_page ''Ali'' [] ''ali@example.com'' []), Returned) \<and>
   in_flight (fst (register (register_page ''Ali'' [] ''ali@example.com'' []))) = [] \<and>
   \<not> (trim ''Ali'' = [] \<and> trim [] = []) \<and>
   \<not> (trim ''ali@example.com'' = [] \<and> trim [] = [])"
  by (simp add: register_def trimmed_value_def register_page_def plain_element_def trim_def
      is_js_space_def)

text \<open>
  C1, as the code has it. On a page with the four fields, \<^verbatim>\<open>register\<close> stops with one
  of the two validation messages and issues no request exactly when the trimmed first name
  or the trimmed last name is empty, or the trimmed email and the trimmed phone are both
  empty; otherwise it issues a POST to \<^verbatim>\<open>/register\<close> and awaits it.
\<close>

theorem register_validation:
  assumes "dom s ''firstName'' = Some f" and "dom s ''lastName'' = Some l"
    and "dom s ''registerEmail'' = Some e" and "dom s ''registerPhone'' = Some p"
  shows "if trim (elem_value f) = [] \<or> trim (elem_value l) = [] \<or>
            (trim (elem_value e) = [] \<and> trim (elem_value p) = [])
         then snd (register s) = Returned \<and> in_flight (fst (register s)) = in_flight s \<and>
              (fst (register s) = showMessage ''Please enter first name and last name'' ''error'' s \<or>
               fst (register s) = showMessage ''Please enter email or phone number'' ''error'' s)
         else snd (register s) = Awaiting \<and>
              (\<exists>req. in_flight (fst (register s)) =
                       in_flight s @ [(req, AfterRegister (trim (elem_value e)) (trim (elem_value p)))] \<and>
                     url req = API_BASE_URL @ ''/register'' \<and> req_method req = ''POST'')"
  using assms by (simp add: register_def trimmed_value_Some Let_def)

theorem register_validation_witness:
  "snd (register (register_page ''Ali'' ''Ahmadi'' ''ali@example.com'' [])) = Awaiting \<and>
   (\<exists>req. in_flight (fst (register (register_page ''Ali'' ''Ahmadi'' ''ali@example.com'' []))) =
            [(req, AfterRegister ''ali@example.com'' [])] \<and>
          url req = ''http://localhost:8000/api/register'' \<and> req_method req = ''POST'')"
  using register_validation [of "register_page ''Ali'' ''Ahmadi'' ''ali@example.com'' []"
      "plain_element ''Ali''" "plain_element ''Ahmadi''" "plain_element ''ali@example.com''"
      "plain_element []"]
  by (simp add: register_page_def plain_element_def trim_def is_js_space_def API_BASE_URL_def)

section \<open>The code check of verifyOtp\<close>

text \<open>
  C4. Claimed: \<^verbatim>\<open>verifyOtp\<close> sends a request only for a code of exactly 6 digits, and a
  code that is empty, too short, too long or has a character that is not a digit is
  rejected with a message. With the letters and digits \<^verbatim>\<open>12a456\<close> in the code field
  \<^verbatim>\<open>verifyOtp\<close> sends them; when the user enters \<^verbatim>\<open>12a3456\<close>, the listener drops
  the letter without a message and \<^verbatim>\<open>verifyOtp\<close> sends \<^verbatim>\<open>123456\<close>; and when the
  user, with a verification in flight, changes the code to the five digits
  \<^verbatim>\<open>12345\<close> and calls \<^verbatim>\<open>verifyOtp\<close> again, the call returns at its first test and the
  message element stays empty.
\<close>

theorem verifyOtp_sends_non_digits_counterexample:
  "snd (verifyOtp (otp_page ''login'' ''ali@example.com'' ''12a456'')) = Awaiting \<and>
   map (body \<circ> fst) (in_flight (fst (verifyOtp (otp_page ''login'' ''ali@example.com'' ''12a456'')))) =
     [Some [(''identifier'', JStr ''ali@example.com''), (''otp'', JStr ''12a456'')]] \<and>
   \<not> list_all is_digit ''12a456'' \<and>
   map (body \<circ> fst) (in_flight (fst (verifyOtp
       (user_input ''otpCode'' ''12a3456'' (otp_page ''login'' ''ali@example.com'' []))))) =
     [Some [(''identifier'', JStr ''ali@example.com''), (''otp'', JStr ''123456'')]] \<and>
   dom (fire (UserInput ''otpCode'' ''12345'')
      (fire CallVerifyOtp (otp_page ''login'' ''ali@example.com'' ''123456''))) ''otpCode'' =
     Some (plain_element ''12345'') \<and>
   verifyOtp (fire (UserInput ''otpCode'' ''12345'')
      (fire CallVerifyOtp (otp_page ''login'' ''ali@example.com'' ''123456''))) =
     (fire (UserInput ''otpCode'' ''12345'')
        (fire CallVerifyOtp (otp_page ''login'' ''ali@example.com'' ''123456'')), Returned) \<and>
   dom (fire (UserInput ''otpCode'' ''12345'')
      (fire CallVerifyOtp (otp_page ''login'' ''ali@example.com'' ''123456''))) ''message'' =
     Some (plain_element [])"
proof -
  have a: "snd (verifyOtp (otp_page ''login'' ''ali@example.com'' ''12a456'')) = Awaiting \<and>
   map (body \<circ> fst) (in_flight (fst (verifyOtp (otp_page ''login'' ''ali@example.com'' ''12a456'')))) =
     [Some [(''identifier'', JStr ''ali@example.com''), (''otp'', JStr ''12a456'')]] \<and>
   \<not> list_all is_digit ''12a456'' \<and>
   map (body \<circ> fst) (in_flight (fst (verifyOtp
       (user_input ''otpCode'' ''12a3456'' (otp_page ''login'' ''ali@example.com'' []))))) =
     [Some [(''identifier'', JStr ''ali@example.com''), (''otp'', JStr ''123456'')]]"
    by (simp add: verifyOtp_def trimmed_value_def otp_page_def loaded_def plain_element_def trim_def
      is_js_space_def is_digit_def otp_dataset_def Let_def api_fetch_def api_options_def
      cleanData_def get_prop_def assign_def user_input_def otp_input_listener_def update_element_def)
  have b: "verifyOtp (fire (UserInput ''otpCode'' ''12345'')
      (fire CallVerifyOtp (otp_page ''login'' ''ali@example.com'' ''123456''))) =
     (fire (UserInput ''otpCode'' ''12345'')
        (fire CallVerifyOtp (otp_page ''login'' ''ali@example.com'' ''123456'')), Returned)"
    using otp_page_retyped(1) by (simp del: fire.simps add: verifyOtp_def)
  show ?thesis
    using a b otp_page_retyped(2,3) by (simp del: fire.simps)
qed

text \<open>
  C4, as the code has it. \<^verbatim>\<open>verifyOtp\<close> sends a request only when the trimmed code has
  exactly 6 characters and no verification is in flight. For a code of any other trimmed
  length (empty, shorter, longer) no request is sent and the call returns: with the message
  \<^verbatim>\<open>Please enter a 6-digit code\<close> when no verification is in flight, and at once,
  leaving the page as it is, when one is. \<^verbatim>\<open>verifyOtp\<close> does not look for digits: the
  input listener removes every other character from the field, and for a field as the
  listener leaves it a request is sent only when the digits that remain are exactly 6.
\<close>

theorem verifyOtp_checks_length:
  assumes "dom s ''otpCode'' = Some c"
  shows "(in_flight (fst (verifyOtp s)) \<noteq> in_flight s \<longrightarrow>
            length (trim (elem_value c)) = 6 \<and> \<not> isVerifyingOtp s) \<and>
         (length (trim (elem_value c)) \<noteq> 6 \<longrightarrow>
            snd (verifyOtp s) = Returned \<and>
            in_flight (fst (verifyOtp s)) = in_flight s \<and>
            fst (verifyOtp s) =
              (if isVerifyingOtp s then s
               else showMessage ''Please enter a 6-digit code'' ''error'' s)) \<and>
         (in_flight (fst (verifyOtp (otp_input_listener s))) \<noteq> in_flight s \<longrightarrow>
            length (filter is_digit (elem_value c)) = 6)"
proof -
  have a: "in_flight (fst (verifyOtp s)) \<noteq> in_flight s \<longrightarrow>
            length (trim (elem_value c)) = 6 \<and> \<not> isVerifyingOtp s"
    using assms verifyOtp_sends_only_length_6 [of s c]
    by (auto simp: verifyOtp_def)
  have b: "length (trim (elem_value c)) \<noteq> 6 \<longrightarrow>
            snd (verifyOtp s) = Returned \<and>
            in_flight (fst (verifyOtp s)) = in_flight s \<and>
            fst (verifyOtp s) =
              (if isVerifyingOtp s then s
               else showMessage ''Please enter a 6-digit code'' ''error'' s)"
    using assms by (auto simp: verifyOtp_def trimmed_value_def)
  have c: "in_flight (fst (verifyOtp (otp_input_listener s))) \<noteq> in_flight s \<longrightarrow>
            length (filter is_digit (elem_value c)) = 6"
  proof
    assume ne: "in_flight (fst (verifyOtp (otp_input_listener s))) \<noteq> in_flight s"
    let ?c = "c\<lparr> elem_value := filter is_digit (elem_value c) \<rparr>"
    have d: "dom (otp_input_listener s) ''otpCode'' = Some ?c"
      using assms by (rule dom_otp_input_listener)
    have "in_flight (fst (verifyOtp (otp_input_listener s))) \<noteq> in_flight (otp_input_listener s)"
      using ne by simp
    with d have "length (trim (elem_value ?c)) = 6"
      by (rule verifyOtp_sends_only_length_6)
    moreover have "trim (filter is_digit (elem_value c)) = filter is_digit (elem_value c)"
      by (rule trim_digits) (simp add: list_all_iff)
    ultimately show "length (filter is_digit (elem_value c)) = 6" by simp
  qed
  from a b c show ?thesis by blast
qed

theorem verifyOtp_checks_length_witness:
  "verifyOtp (otp_page ''login'' ''ali@example.com'' ''12345'') =
     (showMessage ''Please enter a 6-digit code'' ''error''
        (otp_page ''login'' ''ali@example.com'' ''12345''), Returned) \<and>
   in_flight (fst (verifyOtp (otp_page ''login'' ''ali@example.com'' ''12345''))) =
     in_flight (otp_page ''login'' ''ali@example.com'' ''12345'') \<and>
   fst (verifyOtp (fire (UserInput ''otpCode'' ''12345'')
      (fire CallVerifyOtp (otp_page ''login'' ''ali@example.com'' ''123456'')))) =
     fire (UserInput ''otpCode'' ''12345'')
       (fire CallVerifyOtp (otp_page ''login'' ''ali@example.com'' ''123456'')) \<and>
   snd (verifyOtp (fire (UserInput ''otpCode'' ''12345'')
      (fire CallVerifyOtp (otp_page ''login'' ''ali@example.com'' ''123456'')))) = Returned"
proof -
  define v where "v = fire (UserInput ''otpCode'' ''12345'')
      (fire CallVerifyOtp (otp_page ''login'' ''ali@example.com'' ''123456''))"
  have flag: "isVerifyingOtp v" and code: "dom v ''otpCode'' = Some (plain_element ''12345'')"
    unfolding v_def by (rule otp_page_retyped)+
  have len: "length (trim (elem_value (plain_element ''12345''))) \<noteq> 6"
    by (simp add: plain_element_def trim_def is_js_space_def)
  have quiet: "otp_page ''login'' ''ali@example.com'' ''12345'' = otp_page ''login'' ''ali@example.com'' ''12345''
      \<and> \<not> isVerifyingOtp (otp_page ''login'' ''ali@example.com'' ''12345'')"
    by (simp add: otp_page_def loaded_def)
  from verifyOtp_checks_length [OF code] len flag
  have up: "fst (verifyOtp v) = v \<and> snd (verifyOtp v) = Returned" by simp
  from verifyOtp_checks_length [of "otp_page ''login'' ''ali@example.com'' ''12345''"
      "plain_element ''12345''"] len quiet
  have down: "verifyOtp (otp_page ''login'' ''ali@example.com'' ''12345'') =
     (showMessage ''Please enter a 6-digit code'' ''error''
        (otp_page ''login'' ''ali@example.com'' ''12345''), Returned) \<and>
   in_flight (fst (verifyOtp (otp_page ''login'' ''ali@example.com'' ''12345''))) =
     in_flight (otp_page ''login'' ''ali@example.com'' ''12345'')"
    by (simp add: prod_eq_iff)
  show ?thesis
    unfolding v_def [symmetric] using up down by blast
qed

section \<open>Direct login\<close>

text \<open>
  In \<^verbatim>\<open>login\<close>: when the settled request indicates direct login, the client sets the
  location to the dashboard in that same step and leaves the OTP form, the timer element,
  the running intervals and the countdown as they were. So whenever that step changes the
  OTP form or starts a countdown, the response did not indicate direct login.
\<close>

lemma login_direct_login_skips_otp:
  "(indicates_direct_login r \<longrightarrow>
      location_href (login_resume email phone r s) = ''dashboard.html'' \<and>
      dom (login_resume email phone r s) ''otpForm'' = dom s ''otpForm'' \<and>
      dom (login_resume email phone r s) ''otpTimer'' = dom s ''otpTimer'' \<and>
      intervals (login_resume email phone r s) = intervals s \<and>
      otpTimerInterval (login_resume email phone r s) = otpTimerInterval s \<and>
      otpTimerSeconds (login_resume email phone r s) = otpTimerSeconds s) \<and>
   (dom (login_resume email phone r s) ''otpForm'' \<noteq> dom s ''otpForm'' \<or>
    intervals (login_resume email phone r s) \<noteq> intervals s \<or>
    otpTimerInterval (login_resume email phone r s) \<noteq> otpTimerInterval s
      \<longrightarrow> \<not> indicates_direct_login r)"
proof (cases "indicates_direct_login r")
  case True
  then show ?thesis by (simp add: login_resume_direct)
next
  case False
  then show ?thesis by simp
qed

text \<open>
  C6. \<^verbatim>\<open>resendOtp\<close> sends the same POST to \<^verbatim>\<open>/login\<close> and does not look for
  \<^verbatim>\<open>direct_login\<close> in the answer. The documented direct-login answer takes
  \<^verbatim>\<open>login\<close> to the dashboard with no interval running. Given to a resend from the
  OTP form in login mode (the countdown of interval 1 running), the same answer leaves the
  location at the login page and the OTP form shown, sets the countdown back to 300
  seconds on the new interval 3, and shows \<^verbatim>\<open>Verification code resent\<close>.
\<close>

theorem resend_ignores_direct_login:
  "indicates_direct_login (api_result (Response direct_answer)) \<and>
   location_href (fire (FetchSettles 0 (Response direct_answer))
      (fire CallLogin (login_page ''ali@example.com''))) = ''dashboard.html'' \<and>
   intervals (fire (FetchSettles 0 (Response direct_answer))
      (fire CallLogin (login_page ''ali@example.com''))) = [] \<and>
   intervals (fire (FetchSettles 0 (Response otp_answer))
      (fire CallLogin (login_page ''ali@example.com''))) = [1] \<and>
   location_href (fire (FetchSettles 0 (Response direct_answer)) (fire CallResendOtp
      (fire (FetchSettles 0 (Response otp_answer))
         (fire CallLogin (login_page ''ali@example.com''))))) = ''index.html'' \<and>
   intervals (fire (FetchSettles 0 (Response direct_answer)) (fire CallResendOtp
      (fire (FetchSettles 0 (Response otp_answer))
         (fire CallLogin (login_page ''ali@example.com''))))) = [3] \<and>
   otpTimerSeconds (fire (FetchSettles 0 (Response direct_answer)) (fire CallResendOtp
      (fire (FetchSettles 0 (Response otp_answer))
         (fire CallLogin (login_page ''ali@example.com''))))) = 300 \<and>
   map_option display (dom (fire (FetchSettles 0 (Response direct_answer)) (fire CallResendOtp
      (fire (FetchSettles 0 (Response otp_answer))
         (fire CallLogin (login_page ''ali@example.com''))))) ''otpForm'') = Some ''block'' \<and>
   map_option textContent (dom (fire (FetchSettles 0 (Response direct_answer)) (fire CallResendOtp
      (fire (FetchSettles 0 (Response otp_answer))
         (fire CallLogin (login_page ''ali@example.com''))))) ''message'') =
     Some ''Verification code resent''"
proof -
  define s where "s = fire (FetchSettles 0 (Response otp_answer)) (fire CallLogin (login_page ''ali@example.com''))"
  have r: "reachable s"
    unfolding s_def
    by (rule reachable.step, rule reachable.step, rule reachable.start) (simp add: login_page_def)
  then have inv: "timer_inv s" by (rule reachable_timer_inv)
  have i: "intervals s = [1]" and n: "next_handle s = 3" and t: "dom s ''otpTimer'' \<noteq> None"
    and ident: "otp_dataset s ''identifier'' = Some ''ali@example.com''"
    unfolding s_def by (rule login_page_otp_shown)+
  have mode: "otp_dataset s ''type'' = Some ''login''" and loc: "location_href s = ''index.html''"
    and idle: "in_flight s = []" and msg: "dom s ''message'' \<noteq> None"
    and shown: "map_option display (dom s ''otpForm'') = Some ''block''"
    unfolding s_def by (rule login_page_otp_form)+
  have after: "fire (FetchSettles 0 (Response direct_answer)) (fire CallResendOtp s) =
      showMessage ''Verification code resent'' ''success'' (startOtpTimer s)"
  proof (rule resend_settled_with_success [OF ident _ mode idle direct_answer_result])
    show "''ali@example.com'' \<noteq> []" by simp
    show "member (JObj [(''success'', JBool True),
                (''data'', JObj [(''direct_login'', JBool True),
                   (''user'', JObj [(''first_name'', JStr ''Ali''), (''last_name'', JStr ''Ahmadi'')])])])
            ''success'' = Inr (JBool True)"
      by (simp add: get_prop_def)
    show "truthy (JBool True)" by simp
  qed
  have a: "location_href (fire (FetchSettles 0 (Response direct_answer)) (fire CallResendOtp s)) = ''index.html''"
    unfolding after by (simp add: loc)
  have b: "intervals (fire (FetchSettles 0 (Response direct_answer)) (fire CallResendOtp s)) = [3]"
    unfolding after using startOtpTimer_restarts(1) [OF inv] t n by simp
  have c: "otpTimerSeconds (fire (FetchSettles 0 (Response direct_answer)) (fire CallResendOtp s)) = 300"
    unfolding after by simp
  have d: "map_option display (dom (fire (FetchSettles 0 (Response direct_answer)) (fire CallResendOtp s)) ''otpForm'') = Some ''block''"
    unfolding after using shown by simp
  have e: "map_option textContent (dom (fire (FetchSettles 0 (Response direct_answer)) (fire CallResendOtp s)) ''message'') =
      Some ''Verification code resent''"
    unfolding after by (rule showMessage_text) (simp add: msg)
  have l: "location_href (fire (FetchSettles 0 (Response direct_answer))
      (fire CallLogin (login_page ''ali@example.com''))) = ''dashboard.html'' \<and>
     intervals (fire (FetchSettles 0 (Response direct_answer))
      (fire CallLogin (login_page ''ali@example.com''))) = []"
    unfolding login_page_settled
    by (simp add: login_resume_direct direct_answer_indicates login_page_def loaded_def)
  show ?thesis
    unfolding s_def [symmetric] using direct_answer_indicates l i a b c d e by blast
qed

section \<open>Logout\<close>

text \<open>\<^verbatim>\<open>logout\<close> never throws, and it goes to the login page whenever the request is
  thrown or returns a result with a true \<^verbatim>\<open>success\<close>; on a result without one it
  leaves the state as it is.\<close>

lemma logout_resume_cases:
  "logout_resume (Inl error) s = s\<lparr> location_href := ''index.html'' \<rparr>"
  "member result ''success'' = Inl error \<Longrightarrow>
     logout_resume (Inr result) s = s\<lparr> location_href := ''index.html'' \<rparr>"
  "member result ''success'' = Inr success \<Longrightarrow> truthy success \<Longrightarrow>
     logout_resume (Inr result) s = s\<lparr> location_href := ''index.html'' \<rparr>"
  "member result ''success'' = Inr success \<Longrightarrow> \<not> truthy success \<Longrightarrow>
     logout_resume (Inr result) s = s"
  by (simp_all add: logout_resume_def)

text \<open>
  C7. \<^verbatim>\<open>logout\<close> goes to the login page when the request succeeds and when
  \<^verbatim>\<open>apiRequest\<close> throws, but not when the server answers with status 200 and
  \<^verbatim>\<open>success: false\<close>: the request settles, nothing is thrown, and the location stays
  the dashboard. The same answer with status 401 is thrown by \<^verbatim>\<open>apiRequest\<close> and
  does lead to the login page.
\<close>

theorem logout_without_success_stays:
  "api_result (Response (logout_refused 200)) =
     Inr (JObj [(''success'', JBool False), (''message'', JStr ''No active session'')]) \<and>
   location_href (fire (FetchSettles 0 (Response (logout_refused 200))) (fire CallLogout dashboard)) =
     ''dashboard.html'' \<and>
   in_flight (fire (FetchSettles 0 (Response (logout_refused 200))) (fire CallLogout dashboard)) = [] \<and>
   location_href (fire (FetchSettles 0 (Response (logout_refused 401))) (fire CallLogout dashboard)) =
     ''index.html''"
  by (simp add: logout_refused_def dashboard_def loaded_def logout_def await_api_def remove_nth_def
      logout_resume_def api_eval)

section \<open>Transport failures and rejections\<close>

text \<open>A rejection in a JSON body, with a message that has none of the four marks the
  \<^verbatim>\<open>catch\<close> block looks for, reaches the caller with the server's message.\<close>

lemma rejection_carries_server_message:
  assumes "body_text r = Inr responseText" and "trim responseText \<noteq> []"
    and "content_type r = Some ct" and "str_includes (toLowerCase ct) ''application/json''"
    and "parsed r = Some (JObj kvs)" and "\<not> ok r"
    and "get_prop kvs ''message'' = JStr m" and "m \<noteq> []"
    and "\<not> str_includes m ''Failed to fetch''" and "\<not> str_includes m ''NetworkError''"
    and "\<not> str_includes m ''Network request failed''" and "\<not> str_includes m ''fetch''"
  shows "api_result (Response r) = Inl (JsError m)"
proof -
  have "responseText \<noteq> []" using assms(2) by (auto simp: trim_def)
  with assms show ?thesis
    by (simp add: api_result_def api_try_def api_catch_def or_else_def)
qed

text \<open>
  C5. A rejection with status 404 and the well-formed body
  \<^verbatim>\<open>{"success": false, "message": "Failed to fetch user"}\<close> is thrown inside the
  \<^verbatim>\<open>try\<close> block with the server's message, and the \<^verbatim>\<open>catch\<close> block, finding
  \<^verbatim>\<open>fetch\<close> in the message, replaces it by the connection error: the caller gets the
  very error it gets when the network fails.
\<close>

theorem rejection_mentioning_fetch_becomes_connection_error:
  "api_try (Response user_not_fetched) = Inl (JsError ''Failed to fetch user'') \<and>
   api_result (Response user_not_fetched) = Inl (JsError connection_error) \<and>
   api_result (NetworkFailure (JsTypeError ''Failed to fetch'')) = Inl (JsError connection_error)"
  by (simp add: user_not_fetched_def api_eval)

section \<open>Resending the code\<close>

text \<open>
  C8. Claimed: every resend in login mode issues a POST to \<^verbatim>\<open>/login\<close>. When the answer
  to the login carries an empty array as identifier, \<^verbatim>\<open>showOtpForm\<close> puts the form in
  login mode with the empty string as stored identifier; \<^verbatim>\<open>resendOtp\<close> then stops at
  its first test, \<^verbatim>\<open>if (!identifier)\<close>, and sends nothing.
\<close>

theorem resend_without_identifier_counterexample:
  "otp_dataset (fire (FetchSettles 0 (Response empty_identifier_answer))
       (fire CallLogin (login_page ''ali@example.com''))) ''type'' = Some ''login'' \<and>
   otp_dataset (fire (FetchSettles 0 (Response empty_identifier_answer))
       (fire CallLogin (login_page ''ali@example.com''))) ''identifier'' = Some [] \<and>
   snd (resendOtp (fire (FetchSettles 0 (Response empty_identifier_answer))
       (fire CallLogin (login_page ''ali@example.com'')))) = Returned \<and>
   in_flight (fst (resendOtp (fire (FetchSettles 0 (Response empty_identifier_answer))
       (fire CallLogin (login_page ''ali@example.com''))))) = []"
proof -
  let ?s = "fire (FetchSettles 0 (Response empty_identifier_answer)) (fire CallLogin (login_page ''ali@example.com''))"
  have d: "otp_dataset ?s ''type'' = Some ''login'' \<and> otp_dataset ?s ''identifier'' = Some []"
    unfolding login_page_settled empty_identifier_result
    by (simp add: login_resume_def
      get_prop_def or_else_def direct_login_def response_identifier_def showOtpForm_def
      login_page_def loaded_def update_element_def setLoading_def showMessage_def setTimeout_def
      startOtpTimer_def stopOtpTimer_def updateTimerDisplay_def otp_dataset_def Let_def)
  have f: "in_flight ?s = []"
    unfolding login_page_settled by (simp add: login_page_def)
  have r: "resendOtp ?s = (showMessage ''Error retrieving information'' ''error'' ?s, Returned)"
    using d by (simp del: fire.simps add: resendOtp_def)
  show ?thesis using f d by (simp del: fire.simps add: r)
qed

lemma resend_with_identifier:
  assumes "otp_dataset s ''identifier'' = Some i" and "i \<noteq> []"
  shows "(otp_dataset s ''type'' = Some ''login'' \<longrightarrow>
            snd (resendOtp s) = Awaiting \<and>
            (\<exists>req. in_flight (fst (resendOtp s)) = in_flight s @ [(req, AfterResend)] \<and>
                   url req = API_BASE_URL @ ''/login'' \<and> req_method req = ''POST'') \<and>
            (\<forall>result success s'.
               member result ''success'' = Inr success \<and> truthy success \<longrightarrow>
               otpTimerSeconds (resume AfterResend (Inr result) s') = 300 \<and>
               in_flight (resume AfterResend (Inr result) s') = in_flight s' \<and>
               (dom s' ''otpTimer'' \<noteq> None \<longrightarrow>
                  otpTimerInterval (resume AfterResend (Inr result) s') = Some (next_handle s') \<and>
                  next_handle s' \<in> set (intervals (resume AfterResend (Inr result) s'))))) \<and>
         (otp_dataset s ''type'' = Some ''register'' \<longrightarrow>
            snd (resendOtp s) = Returned \<and>
            in_flight (fst (resendOtp s)) = in_flight s \<and>
            (\<exists>f. dom s ''otpForm'' = Some f \<and>
                 dom (fst (resendOtp s)) ''otpForm'' = Some (f\<lparr> display := ''none'' \<rparr>)) \<and>
            (\<forall>rf. dom s ''registerForm'' = Some rf \<longrightarrow>
                  dom (fst (resendOtp s)) ''registerForm'' = Some (rf\<lparr> display := ''block'' \<rparr>)))"
proof (intro conjI impI)
  assume t: "otp_dataset s ''type'' = Some ''login''"
  show "snd (resendOtp s) = Awaiting"
    using assms t by (simp add: resendOtp_def)
  show "\<exists>req. in_flight (fst (resendOtp s)) = in_flight s @ [(req, AfterResend)] \<and>
             url req = API_BASE_URL @ ''/login'' \<and> req_method req = ''POST''"
    using assms t by (simp add: resendOtp_def)
  show "\<forall>result success s'.
          member result ''success'' = Inr success \<and> truthy success \<longrightarrow>
          otpTimerSeconds (resume AfterResend (Inr result) s') = 300 \<and>
          in_flight (resume AfterResend (Inr result) s') = in_flight s' \<and>
          (dom s' ''otpTimer'' \<noteq> None \<longrightarrow>
             otpTimerInterval (resume AfterResend (Inr result) s') = Some (next_handle s') \<and>
             next_handle s' \<in> set (intervals (resume AfterResend (Inr result) s')))"
    by (simp add: resendOtp_resume_def startOtpTimer_installs)
next
  assume t: "otp_dataset s ''type'' = Some ''register''"
  let ?s1 = "showMessage ''Please fill out the registration form again'' ''info'' s"
  have r: "resendOtp s = (backToForm ?s1, Returned)"
    using assms t by (simp add: resendOtp_def)
  obtain f where f: "dom s ''otpForm'' = Some f" "dataset f ''type'' = Some ''register''"
    using otp_dataset_Some [OF t] by blast
  then have f1: "dom ?s1 ''otpForm'' = Some f" by simp
  show "snd (resendOtp s) = Returned" by (simp add: r)
  show "in_flight (fst (resendOtp s)) = in_flight s" by (simp add: r)
  show "\<exists>f. dom s ''otpForm'' = Some f \<and>
            dom (fst (resendOtp s)) ''otpForm'' = Some (f\<lparr> display := ''none'' \<rparr>)"
    using f backToForm_register(1) [OF f1 f(2)] by (simp add: r)
  show "\<forall>rf. dom s ''registerForm'' = Some rf \<longrightarrow>
             dom (fst (resendOtp s)) ''registerForm'' = Some (rf\<lparr> display := ''block'' \<rparr>)"
    using backToForm_register(2) [OF f1 f(2)] by (simp add: r)
qed

text \<open>
  C8, as the code has it. \<^verbatim>\<open>resendOtp\<close> first looks for the identifier stored in the
  OTP form: without one it only shows \<^verbatim>\<open>Error retrieving information\<close> and sends
  nothing. With one: in login mode it issues a POST to \<^verbatim>\<open>/login\<close> and awaits it, and
  when that request settles with success the countdown is back at 300 seconds, on a fresh
  interval if the page has a timer element, and no further request is issued; in register
  mode it sends nothing, hides the OTP form and shows the registration form again.
\<close>

theorem resend_follows_form_mode:
  "(otp_dataset s ''identifier'' = None \<or> otp_dataset s ''identifier'' = Some [] \<longrightarrow>
      resendOtp s = (showMessage ''Error retrieving information'' ''error'' s, Returned) \<and>
      in_flight (fst (resendOtp s)) = in_flight s) \<and>
   ((\<exists>i. otp_dataset s ''identifier'' = Some i \<and> i \<noteq> []) \<longrightarrow>
      (otp_dataset s ''type'' = Some ''login'' \<longrightarrow>
         snd (resendOtp s) = Awaiting \<and>
         (\<exists>req. in_flight (fst (resendOtp s)) = in_flight s @ [(req, AfterResend)] \<and>
                url req = API_BASE_URL @ ''/login'' \<and> req_method req = ''POST'') \<and>
         (\<forall>result success s'.
            member result ''success'' = Inr success \<and> truthy success \<longrightarrow>
            otpTimerSeconds (resume AfterResend (Inr result) s') = 300 \<and>
            in_flight (resume AfterResend (Inr result) s') = in_flight s' \<and>
            (dom s' ''otpTimer'' \<noteq> None \<longrightarrow>
               otpTimerInterval (resume AfterResend (Inr result) s') = Some (next_handle s') \<and>
               next_handle s' \<in> set (intervals (resume AfterResend (Inr result) s'))))) \<and>
      (otp_dataset s ''type'' = Some ''register'' \<longrightarrow>
         snd (resendOtp s) = Returned \<and>
         in_flight (fst (resendOtp s)) = in_flight s \<and>
         (\<exists>f. dom s ''otpForm'' = Some f \<and>
              dom (fst (resendOtp s)) ''otpForm'' = Some (f\<lparr> display := ''none'' \<rparr>)) \<and>
         (\<forall>rf. dom s ''registerForm'' = Some rf \<longrightarrow>
               dom (fst (resendOtp s)) ''registerForm'' = Some (rf\<lparr> display := ''block'' \<rparr>))))"
proof (rule conjI)
  show "otp_dataset s ''identifier'' = None \<or> otp_dataset s ''identifier'' = Some [] \<longrightarrow>
      resendOtp s = (showMessage ''Error retrieving information'' ''error'' s, Returned) \<and>
      in_flight (fst (resendOtp s)) = in_flight s"
    by (auto simp: resendOtp_def)
next
  show "(\<exists>i. otp_dataset s ''identifier'' = Some i \<and> i \<noteq> []) \<longrightarrow>
      (otp_dataset s ''type'' = Some ''login'' \<longrightarrow>
         snd (resendOtp s) = Awaiting \<and>
         (\<exists>req. in_flight (fst (resendOtp s)) = in_flight s @ [(req, AfterResend)] \<and>
                url req = API_BASE_URL @ ''/login'' \<and> req_method req = ''POST'') \<and>
         (\<forall>result success s'.
            member result ''success'' = Inr success \<and> truthy success \<longrightarrow>
            otpTimerSeconds (resume AfterResend (Inr result) s') = 300 \<and>
            in_flight (resume AfterResend (Inr result) s') = in_flight s' \<and>
            (dom s' ''otpTimer'' \<noteq> None \<longrightarrow>
               otpTimerInterval (resume AfterResend (Inr result) s') = Some (next_handle s') \<and>
               next_handle s' \<in> set (intervals (resume AfterResend (Inr result) s'))))) \<and>
      (otp_dataset s ''type'' = Some ''register'' \<longrightarrow>
         snd (resendOtp s) = Returned \<and>
         in_flight (fst (resendOtp s)) = in_flight s \<and>
         (\<exists>f. dom s ''otpForm'' = Some f \<and>
              dom (fst (resendOtp s)) ''otpForm'' = Some (f\<lparr> display := ''none'' \<rparr>)) \<and>
         (\<forall>rf. dom s ''registerForm'' = Some rf \<longrightarrow>
               dom (fst (resendOtp s)) ''registerForm'' = Some (rf\<lparr> display := ''block'' \<rparr>)))"
  proof
    assume "\<exists>i. otp_dataset s ''identifier'' = Some i \<and> i \<noteq> []"
    then obtain i where "otp_dataset s ''identifier'' = Some i" and "i \<noteq> []" by blast
    then show "(otp_dataset s ''type'' = Some ''login'' \<longrightarrow>
         snd (resendOtp s) = Awaiting \<and>
         (\<exists>req. in_flight (fst (resendOtp s)) = in_flight s @ [(req, AfterResend)] \<and>
                url req = API_BASE_URL @ ''/login'' \<and> req_method req = ''POST'') \<and>
         (\<forall>result success s'.
            member result ''success'' = Inr success \<and> truthy success \<longrightarrow>
            otpTimerSeconds (resume AfterResend (Inr result) s') = 300 \<and>
            in_flight (resume AfterResend (Inr result) s') = in_flight s' \<and>
            (dom s' ''otpTimer'' \<noteq> None \<longrightarrow>
               otpTimerInterval (resume AfterResend (Inr result) s') = Some (next_handle s') \<and>
               next_handle s' \<in> set (intervals (resume AfterResend (Inr result) s'))))) \<and>
      (otp_dataset s ''type'' = Some ''register'' \<longrightarrow>
         snd (resendOtp s) = Returned \<and>
         in_flight (fst (resendOtp s)) = in_flight s \<and>
         (\<exists>f. dom s ''otpForm'' = Some f \<and>
              dom (fst (resendOtp s)) ''otpForm'' = Some (f\<lparr> display := ''none'' \<rparr>)) \<and>
         (\<forall>rf. dom s ''registerForm'' = Some rf \<longrightarrow>
               dom (fst (resendOtp s)) ''registerForm'' = Some (rf\<lparr> display := ''block'' \<rparr>)))"
      by (rule resend_with_identifier)
  qed
qed

theorem resend_follows_form_mode_witness:
  "snd (resendOtp (otp_page ''login'' ''ali@example.com'' [])) = Awaiting \<and>
   (\<exists>req. in_flight (fst (resendOtp (otp_page ''login'' ''ali@example.com'' []))) = [(req, AfterResend)] \<and>
          url req = ''http://localhost:8000/api/login'' \<and> req_method req = ''POST'') \<and>
   otpTimerSeconds (resume AfterResend (Inr otp_response)
      (fst (resendOtp (otp_page ''login'' ''ali@example.com'' [])))) = 300 \<and>
   snd (resendOtp (otp_page ''register'' ''ali@example.com'' [])) = Returned \<and>
   in_flight (fst (resendOtp (otp_page ''register'' ''ali@example.com'' []))) = [] \<and>
   dom (fst (resendOtp (otp_page ''register'' ''ali@example.com'' []))) ''registerForm'' =
     Some ((plain_element [])\<lparr> display := ''block'' \<rparr>)"
proof -
  have i: "''ali@example.com'' \<noteq> []" by simp
  have m: "member otp_response ''success'' = Inr (JBool True) \<and> truthy (JBool True)"
    by (simp add: otp_response_def get_prop_def)
  have rf: "dom (otp_page ''register'' ''ali@example.com'' []) ''registerForm'' = Some (plain_element [])"
    by (simp add: otp_page_def)
  have e: "in_flight (otp_page t ''ali@example.com'' []) = []" for t
    by (simp add: otp_page_def)
  show ?thesis
    using resend_follows_form_mode [of "otp_page ''login'' ''ali@example.com'' []"]
      resend_follows_form_mode [of "otp_page ''register'' ''ali@example.com'' []"]
      i m rf e
    by (simp add: API_BASE_URL_def)
qed

section \<open>The re-entrancy guard and the countdown\<close>

text \<open>
  C3. In every state the client can reach, at most one verification request is in flight,
  and the flag is up exactly then. While the flag is up a call of \<^verbatim>\<open>verifyOtp\<close> returns
  at once, leaving the state as it is, so it sends nothing. Whatever a verification
  request settles to (a result with or without success, or an error thrown by
  \<^verbatim>\<open>apiRequest\<close>), the flag is down afterwards. A call that suspends has put the flag
  up with exactly one request in flight; a call that ends without suspending leaves the
  flag and the requests as they were.
\<close>

theorem one_verification_in_flight:
  assumes "reachable s"
  shows "verify_pending s \<le> 1 \<and>
         (isVerifyingOtp s \<longrightarrow> verify_pending s = 1 \<and> verifyOtp s = (s, Returned)) \<and>
         (\<forall>k r s'. is_verify k \<longrightarrow> \<not> isVerifyingOtp (resume k r s')) \<and>
         (snd (verifyOtp s) = Awaiting \<longrightarrow>
            isVerifyingOtp (fst (verifyOtp s)) \<and> verify_pending (fst (verifyOtp s)) = 1) \<and>
         (snd (verifyOtp s) \<noteq> Awaiting \<longrightarrow>
            isVerifyingOtp (fst (verifyOtp s)) = isVerifyingOtp s \<and>
            in_flight (fst (verifyOtp s)) = in_flight s)"
proof -
  have inv: "verify_inv s" using assms by (rule reachable_verify_inv)
  have inv': "verify_inv (fst (verifyOtp s))" using inv by (rule verify_inv_verifyOtp)
  have a: "verify_pending s \<le> 1"
    using inv by (simp add: verify_inv_def split: if_splits)
  have b: "isVerifyingOtp s \<longrightarrow> verify_pending s = 1 \<and> verifyOtp s = (s, Returned)"
    using inv by (simp add: verify_inv_def verifyOtp_def)
  have c: "\<forall>k r s'. is_verify k \<longrightarrow> \<not> isVerifyingOtp (resume k r s')"
    by (simp add: resume_flag)
  have d: "snd (verifyOtp s) = Awaiting \<longrightarrow> isVerifyingOtp (fst (verifyOtp s))"
    by (simp add: verifyOtp_def verify_finally_def Let_def split: sum.split option.split)
  have e: "snd (verifyOtp s) \<noteq> Awaiting \<longrightarrow>
            isVerifyingOtp (fst (verifyOtp s)) = isVerifyingOtp s \<and>
            in_flight (fst (verifyOtp s)) = in_flight s"
    by (simp add: verifyOtp_def verify_finally_def Let_def split: sum.split option.split)
  have f: "isVerifyingOtp (fst (verifyOtp s)) \<longrightarrow> verify_pending (fst (verifyOtp s)) = 1"
    using inv' by (simp add: verify_inv_def)
  from a b c d e f show ?thesis by blast
qed

theorem one_verification_in_flight_witness:
  "isVerifyingOtp (fire CallVerifyOtp (otp_page ''login'' ''ali@example.com'' ''123456'')) \<and>
   verify_pending (fire CallVerifyOtp (otp_page ''login'' ''ali@example.com'' ''123456'')) = 1 \<and>
   verifyOtp (fire CallVerifyOtp (otp_page ''login'' ''ali@example.com'' ''123456'')) =
     (fire CallVerifyOtp (otp_page ''login'' ''ali@example.com'' ''123456''), Returned) \<and>
   \<not> isVerifyingOtp (fire (FetchSettles 0 (NetworkFailure (JsTypeError ''Failed to fetch'')))
        (fire CallVerifyOtp (otp_page ''login'' ''ali@example.com'' ''123456'')))"
proof -
  let ?s = "fire CallVerifyOtp (otp_page ''login'' ''ali@example.com'' ''123456'')"
  have r: "reachable ?s"
    by (rule reachable.step, rule reachable.start) (simp add: otp_page_def)
  have v: "fst (verifyOtp (otp_page ''login'' ''ali@example.com'' ''123456'')) =
      await_api ''/verify-login-otp'' ''POST''
        (Some [(''identifier'', JStr ''ali@example.com''), (''otp'', JStr ''123456'')]) AfterVerifyLogin
        (setLoading ''verifyOtpBtn'' True
           ((otp_page ''login'' ''ali@example.com'' ''123456'')\<lparr> isVerifyingOtp := True \<rparr>))"
    by (simp add: verifyOtp_def trimmed_value_def plain_element_def trim_def is_js_space_def
        otp_page_def loaded_def otp_dataset_def)
  have flag: "isVerifyingOtp ?s" by (simp add: v)
  have p: "in_flight ?s = [(api_fetch ''/verify-login-otp'' ''POST''
        (Some [(''identifier'', JStr ''ali@example.com''), (''otp'', JStr ''123456'')]), AfterVerifyLogin)]"
    by (simp only: fire.simps v await_api_frame setLoading_frame) (simp add: otp_page_def loaded_def)
  have st: "fire (FetchSettles 0 (NetworkFailure (JsTypeError ''Failed to fetch''))) ?s =
      resume AfterVerifyLogin (api_result (NetworkFailure (JsTypeError ''Failed to fetch'')))
        (?s\<lparr> in_flight := remove_nth 0 (in_flight ?s) \<rparr>)"
    using fire_settles [of 0 ?s] p by (simp del: fire.simps)
  note T = one_verification_in_flight [OF r]
  from T have t3: "\<forall>k r s'. is_verify k \<longrightarrow> \<not> isVerifyingOtp (resume k r s')"
    by blast
  from T flag have t2: "verify_pending ?s = 1 \<and> verifyOtp ?s = (?s, Returned)"
    by blast
  have cleared: "\<not> isVerifyingOtp (fire (FetchSettles 0 (NetworkFailure (JsTypeError ''Failed to fetch''))) ?s)"
    unfolding st by (rule t3 [rule_format]) simp
  show ?thesis
    using flag t2 cleared by blast
qed

text \<open>
  C9. Every state the client can reach satisfies the timer invariant: the running intervals
  are the one interval \<^verbatim>\<open>otpTimerInterval\<close> holds, if any. Under the invariant at most
  one interval is running. \<^verbatim>\<open>startOtpTimer\<close> sets the remaining time to 300 seconds and
  leaves as the only running interval the fresh one it installs (none, when the page has no
  timer element): the interval that ran before is cleared. Each tick of the running interval
  takes one second off the counter; a tick that takes the counter to zero or below stops
  the interval and clears \<^verbatim>\<open>otpTimerInterval\<close>, any other tick leaves the interval
  running. So from a counter of \<open>n\<close> seconds the interval is still the only one running
  after each of the first \<open>n - 1\<close> ticks and none is running after the \<open>n\<close>-th.
\<close>

theorem one_countdown_interval:
  "(reachable s \<longrightarrow> timer_inv s) \<and>
   (timer_inv s \<longrightarrow>
      length (intervals s) \<le> 1 \<and>
      set (intervals s) = set_option (otpTimerInterval s) \<and>
      next_handle s \<notin> set (intervals s) \<and>
      otpTimerSeconds (startOtpTimer s) = 300 \<and>
      intervals (startOtpTimer s) = (if dom s ''otpTimer'' = None then [] else [next_handle s]) \<and>
      otpTimerInterval (startOtpTimer s) =
        (if dom s ''otpTimer'' = None then None else Some (next_handle s)) \<and>
      (\<forall>h. h \<in> set (intervals s) \<longrightarrow>
         otpTimerSeconds (fire (IntervalFires h) s) = otpTimerSeconds s - 1 \<and>
         (if otpTimerSeconds s \<le> 1
          then intervals (fire (IntervalFires h) s) = [] \<and>
               otpTimerInterval (fire (IntervalFires h) s) = None
          else intervals (fire (IntervalFires h) s) = intervals s \<and>
               otpTimerInterval (fire (IntervalFires h) s) = otpTimerInterval s) \<and>
         (0 < otpTimerSeconds s \<longrightarrow>
            (\<forall>k < nat (otpTimerSeconds s). intervals (fires k h s) = [h]) \<and>
            intervals (fires (nat (otpTimerSeconds s)) h s) = [])))"
proof (intro conjI impI)
  assume "reachable s"
  then show "timer_inv s" by (rule reachable_timer_inv)
next
  assume inv: "timer_inv s"
  show "length (intervals s) \<le> 1"
    using inv by (auto simp: timer_inv_def split: option.splits)
  show "set (intervals s) = set_option (otpTimerInterval s)"
    using inv by (auto simp: timer_inv_def split: option.splits)
  show "next_handle s \<notin> set (intervals s)"
    using inv by (auto simp: timer_inv_def split: option.splits)
  show "otpTimerSeconds (startOtpTimer s) = 300" by simp
  show "intervals (startOtpTimer s) = (if dom s ''otpTimer'' = None then [] else [next_handle s])"
    using inv by (rule startOtpTimer_restarts)
  show "otpTimerInterval (startOtpTimer s) =
        (if dom s ''otpTimer'' = None then None else Some (next_handle s))"
    using inv by (rule startOtpTimer_restarts)
  show "\<forall>h. h \<in> set (intervals s) \<longrightarrow>
         otpTimerSeconds (fire (IntervalFires h) s) = otpTimerSeconds s - 1 \<and>
         (if otpTimerSeconds s \<le> 1
          then intervals (fire (IntervalFires h) s) = [] \<and>
               otpTimerInterval (fire (IntervalFires h) s) = None
          else intervals (fire (IntervalFires h) s) = intervals s \<and>
               otpTimerInterval (fire (IntervalFires h) s) = otpTimerInterval s) \<and>
         (0 < otpTimerSeconds s \<longrightarrow>
            (\<forall>k < nat (otpTimerSeconds s). intervals (fires k h s) = [h]) \<and>
            intervals (fires (nat (otpTimerSeconds s)) h s) = [])"
  proof (intro allI impI)
    fix h assume h: "h \<in> set (intervals s)"
    then have f: "fire (IntervalFires h) s = timer_tick s" by (rule fire_tick)
    have single: "intervals s = [h]"
      using inv h by (auto simp: timer_inv_def split: option.splits)
    have a: "otpTimerSeconds (timer_tick s) = otpTimerSeconds s - 1" by (rule timer_tick_seconds)
    have b: "otpTimerSeconds s \<le> 1 \<Longrightarrow>
        intervals (timer_tick s) = [] \<and> otpTimerInterval (timer_tick s) = None"
      by (rule timer_tick_stops [OF inv])
    have c: "\<not> otpTimerSeconds s \<le> 1 \<Longrightarrow>
        intervals (timer_tick s) = intervals s \<and> otpTimerInterval (timer_tick s) = otpTimerInterval s"
      by (rule timer_tick_runs_on) simp
    have d: "0 < otpTimerSeconds s \<longrightarrow>
            (\<forall>k < nat (otpTimerSeconds s). intervals (fires k h s) = [h]) \<and>
            intervals (fires (nat (otpTimerSeconds s)) h s) = []"
      using countdown_runs [OF inv single] countdown_stops [OF inv single] by blast
    show "otpTimerSeconds (fire (IntervalFires h) s) = otpTimerSeconds s - 1 \<and>
         (if otpTimerSeconds s \<le> 1
          then intervals (fire (IntervalFires h) s) = [] \<and>
               otpTimerInterval (fire (IntervalFires h) s) = None
          else intervals (fire (IntervalFires h) s) = intervals s \<and>
               otpTimerInterval (fire (IntervalFires h) s) = otpTimerInterval s) \<and>
         (0 < otpTimerSeconds s \<longrightarrow>
            (\<forall>k < nat (otpTimerSeconds s). intervals (fires k h s) = [h]) \<and>
            intervals (fires (nat (otpTimerSeconds s)) h s) = [])"
      unfolding f using a b c d by (simp del: fire.simps)
  qed
qed

theorem one_countdown_interval_witness:
  "intervals (fire (FetchSettles 0 (Response otp_answer)) (fire CallLogin (login_page ''ali@example.com''))) = [1] \<and>
   otpTimerSeconds (fire (IntervalFires 1)
      (fire (FetchSettles 0 (Response otp_answer)) (fire CallLogin (login_page ''ali@example.com'')))) = 299 \<and>
   intervals (fire (IntervalFires 1)
      (fire (FetchSettles 0 (Response otp_answer)) (fire CallLogin (login_page ''ali@example.com'')))) = [1] \<and>
   intervals (fires 299 1
      (fire (FetchSettles 0 (Response otp_answer)) (fire CallLogin (login_page ''ali@example.com'')))) = [1] \<and>
   intervals (fires 300 1
      (fire (FetchSettles 0 (Response otp_answer)) (fire CallLogin (login_page ''ali@example.com'')))) = [] \<and>
   intervals (startOtpTimer
      (fire (FetchSettles 0 (Response otp_answer)) (fire CallLogin (login_page ''ali@example.com'')))) = [3] \<and>
   otpTimerSeconds (startOtpTimer
      (fire (FetchSettles 0 (Response otp_answer)) (fire CallLogin (login_page ''ali@example.com'')))) = 300"
proof -
  define s where "s = fire (FetchSettles 0 (Response otp_answer)) (fire CallLogin (login_page ''ali@example.com''))"
  have r: "reachable s"
    unfolding s_def
    by (rule reachable.step, rule reachable.step, rule reachable.start) (simp add: login_page_def)
  have i: "intervals s = [1]" and n: "next_handle s = 3" and t: "dom s ''otpTimer'' \<noteq> None"
    unfolding s_def by (rule login_page_otp_shown)+
  have sec: "otpTimerSeconds s = 300"
    unfolding s_def by (rule login_page_otp_seconds)
  note T = one_countdown_interval [of s]
  from T r have inv: "timer_inv s" by blast
  from T inv have start: "otpTimerSeconds (startOtpTimer s) = 300"
    "intervals (startOtpTimer s) = (if dom s ''otpTimer'' = None then [] else [next_handle s])"
    by blast+
  from T inv have tick: "\<forall>h. h \<in> set (intervals s) \<longrightarrow>
         otpTimerSeconds (fire (IntervalFires h) s) = otpTimerSeconds s - 1 \<and>
         (if otpTimerSeconds s \<le> 1
          then intervals (fire (IntervalFires h) s) = [] \<and>
               otpTimerInterval (fire (IntervalFires h) s) = None
          else intervals (fire (IntervalFires h) s) = intervals s \<and>
               otpTimerInterval (fire (IntervalFires h) s) = otpTimerInterval s) \<and>
         (0 < otpTimerSeconds s \<longrightarrow>
            (\<forall>k < nat (otpTimerSeconds s). intervals (fires k h s) = [h]) \<and>
            intervals (fires (nat (otpTimerSeconds s)) h s) = [])"
    by blast
  have one: "1 \<in> set (intervals s)" by (simp add: i)
  from tick [rule_format, OF one]
  have a: "otpTimerSeconds (fire (IntervalFires 1) s) = 299"
    and b: "intervals (fire (IntervalFires 1) s) = [1]"
    and c: "\<forall>k < 300. intervals (fires k 1 s) = [1]"
    and d: "intervals (fires 300 1 s) = []"
    by (simp_all del: fire.simps fires.simps add: sec i)
  have c': "intervals (fires 299 1 s) = [1]" using c by simp
  have e: "intervals (startOtpTimer s) = [3]" using start(2) t n by simp
  show ?thesis
    unfolding s_def [symmetric] using i a b c' d e start(1) by blast
qed

end
